theory Spec2Isabelle
  imports Main "HOL-Library.Sublist"
begin

section \<open>JavaScript values\<close>

text \<open>
  The middleware of this repository is JavaScript. A JavaScript string is modelled as a
  HOL \<open>string\<close> whose characters are single code units in the Latin-1 range, so the
  accented letters of the Spanish messages are one character each (\<open>CHR 0xE1\<close> is
  a-acute). Numbers are IEEE doubles in the source; the model keeps the three special
  values apart and restricts the finite ones to integers, which is all the code
  under study computes with (counters, status codes, elapsed milliseconds).
\<close>

datatype js_number = NaN | PosInf | NegInf | Fin int

datatype js_value =
    JUndefined
  | JNull
  | JBool bool
  | JNum js_number
  | JStr string
  | JObj "(string \<times> js_value) list"

text \<open>ToBoolean: what \<open>if (v)\<close>, \<open>!v\<close> and \<open>v || d\<close> test.\<close>

fun truthy :: "js_value \<Rightarrow> bool" where
  "truthy JUndefined = False"
| "truthy JNull = False"
| "truthy (JBool b) = b"
| "truthy (JNum NaN) = False"
| "truthy (JNum (Fin n)) = (n \<noteq> 0)"
| "truthy (JNum PosInf) = True"
| "truthy (JNum NegInf) = True"
| "truthy (JStr s) = (s \<noteq> [])"
| "truthy (JObj kvs) = True"

fun typeof :: "js_value \<Rightarrow> string" where
  "typeof JUndefined = ''undefined''"
| "typeof JNull = ''object''"
| "typeof (JBool b) = ''boolean''"
| "typeof (JNum n) = ''number''"
| "typeof (JStr s) = ''string''"
| "typeof (JObj kvs) = ''object''"

text \<open>Property read \<open>o.k\<close> on an object literal: the value of the key, else undefined.\<close>

fun get_prop :: "js_value \<Rightarrow> string \<Rightarrow> js_value" where
  "get_prop (JObj kvs) k = (case map_of kvs k of Some v \<Rightarrow> v | None \<Rightarrow> JUndefined)"
| "get_prop v k = JUndefined"

fun keys :: "js_value \<Rightarrow> string list" where
  "keys (JObj kvs) = map fst kvs"
| "keys v = []"

text \<open>
  \<open>String.prototype.split\<close> with a one-character separator: the pieces between the
  separators, empty pieces included; the empty string splits into one empty piece.
\<close>

fun split :: "char \<Rightarrow> string \<Rightarrow> string list" where
  "split sep [] = [[]]"
| "split sep (c # cs) =
     (if c = sep then [] # split sep cs
      else (case split sep cs of
              w # ws \<Rightarrow> (c # w) # ws
            | [] \<Rightarrow> [[c]]))"

text \<open>Array read \<open>a[i]\<close>: undefined (here \<open>None\<close>) out of range.\<close>

definition at_index :: "'a list \<Rightarrow> nat \<Rightarrow> 'a option" where
  "at_index xs i = (if i < length xs then Some (xs ! i) else None)"

text \<open>
  The white space that \<open>String.prototype.trim\<close> and \<open>parseInt\<close> strip, as far as it
  lies in the Latin-1 range: tab, line feed, vertical tab, form feed, carriage return,
  space and the no-break space.
\<close>

definition isWhiteSpace :: "char \<Rightarrow> bool" where
  "isWhiteSpace c = (c \<in> set [CHR 0x09, CHR 0x0A, CHR 0x0B, CHR 0x0C, CHR 0x0D, CHR 0x20, CHR 0xA0])"

definition trim :: "string \<Rightarrow> string" where
  "trim s = rev (dropWhile isWhiteSpace (rev (dropWhile isWhiteSpace s)))"


subsection \<open>Decimal digits\<close>

definition digit_chars :: string where
  "digit_chars = ''0123456789''"

definition is_digit :: "char \<Rightarrow> bool" where
  "is_digit c = (c \<in> set digit_chars)"

definition digit_value :: "char \<Rightarrow> nat" where
  "digit_value c = length (takeWhile (\<lambda>d. d \<noteq> c) digit_chars)"

definition digits_value :: "string \<Rightarrow> nat" where
  "digits_value ds = foldl (\<lambda>acc c. acc * 10 + digit_value c) 0 ds"

text \<open>The decimal digits of a natural number, and its last \<open>k\<close> digits padded with zeros.\<close>

fun nat_to_string :: "nat \<Rightarrow> string" where
  "nat_to_string n =
     (if n < 10 then [digit_chars ! n]
      else nat_to_string (n div 10) @ [digit_chars ! (n mod 10)])"

declare nat_to_string.simps [simp del]

fun digits_fixed :: "nat \<Rightarrow> nat \<Rightarrow> string" where
  "digits_fixed 0 n = []"
| "digits_fixed (Suc k) n = digits_fixed k (n div 10) @ [digit_chars ! (n mod 10)]"

subsection \<open>Date.prototype.toISOString\<close>

text \<open>
  \<open>new Date().toISOString()\<close> is the runtime's. It is modelled after the ECMAScript
  specification, on the time value \<open>t\<close>: the milliseconds since 1970-01-01T00:00:00Z
  that the wall clock shows (a natural number: the clock is not set before 1970).
  \<open>year_and_day 1970 (Day t)\<close> is \<open>YearFromTime\<close> together with \<open>DayWithinYear\<close>;
  \<open>month_and_date\<close> is \<open>MonthFromTime\<close>, counted from 1, together with \<open>DateFromTime\<close>.
  The year is written with four digits up to 9999 and with a plus sign and six digits
  beyond, which is enough for every time value a Date can hold (at most
  \<open>8.64 * 10^15\<close>, in the year 275760).
\<close>

definition msPerDay :: nat where
  "msPerDay = 86400000"

definition DaysInYear :: "nat \<Rightarrow> nat" where
  "DaysInYear y =
     (if y mod 4 \<noteq> 0 then 365
      else if y mod 100 \<noteq> 0 then 366
      else if y mod 400 \<noteq> 0 then 365
      else 366)"

function year_and_day :: "nat \<Rightarrow> nat \<Rightarrow> nat \<times> nat" where
  "year_and_day y d =
     (if d < DaysInYear y then (y, d) else year_and_day (Suc y) (d - DaysInYear y))"
  by pat_completeness auto
termination
  by (relation "measure snd") (auto simp: DaysInYear_def)

declare year_and_day.simps [simp del]

definition month_lengths :: "nat \<Rightarrow> nat list" where
  "month_lengths y =
     [31, if DaysInYear y = 366 then 29 else 28, 31, 30, 31, 30, 31, 31, 30, 31, 30, 31]"

fun month_and_date :: "nat \<Rightarrow> nat list \<Rightarrow> nat \<times> nat" where
  "month_and_date d [] = (1, d + 1)"
| "month_and_date d (len # lens) =
     (if d < len then (1, d + 1)
      else (case month_and_date (d - len) lens of (m, dt) \<Rightarrow> (m + 1, dt)))"

definition toISOString :: "nat \<Rightarrow> string" where
  "toISOString t =
     (let (y, d) = year_and_day 1970 (t div msPerDay);
          (mo, dt) = month_and_date d (month_lengths y);
          h = (t div 3600000) mod 24;
          mi = (t div 60000) mod 60;
          s = (t div 1000) mod 60;
          ms = t mod 1000
      in (if y \<le> 9999 then digits_fixed 4 y else CHR ''+'' # digits_fixed 6 y) @
         ''-'' @ digits_fixed 2 mo @ ''-'' @ digits_fixed 2 dt @
         ''T'' @ digits_fixed 2 h @ '':'' @ digits_fixed 2 mi @ '':'' @ digits_fixed 2 s @
         ''.'' @ digits_fixed 3 ms @ ''Z'')"

text \<open>
  The ISO 8601 date-time strings in the form ECMAScript uses,
  \<open>YYYY-MM-DDTHH:mm:ss.sssZ\<close> or the same with a sign and a six-digit year: the digits
  and separators are in their places, the month is 01 to 12, the day exists in that
  month of that year, the hour is at most 23, minute and second at most 59.
\<close>

definition field_ok :: "string \<Rightarrow> nat \<Rightarrow> nat \<Rightarrow> bool" where
  "field_ok ds lo hi = (list_all is_digit ds \<and> lo \<le> digits_value ds \<and> digits_value ds \<le> hi)"

definition iso_rest :: "nat \<Rightarrow> string \<Rightarrow> bool" where
  "iso_rest y u =
     (length u = 20 \<and>
      take 1 u = ''-'' \<and> field_ok (take 2 (drop 1 u)) 1 12 \<and>
      take 1 (drop 3 u) = ''-'' \<and>
      field_ok (take 2 (drop 4 u)) 1 (month_lengths y ! (digits_value (take 2 (drop 1 u)) - 1)) \<and>
      take 1 (drop 6 u) = ''T'' \<and> field_ok (take 2 (drop 7 u)) 0 23 \<and>
      take 1 (drop 9 u) = '':'' \<and> field_ok (take 2 (drop 10 u)) 0 59 \<and>
      take 1 (drop 12 u) = '':'' \<and> field_ok (take 2 (drop 13 u)) 0 59 \<and>
      take 1 (drop 15 u) = ''.'' \<and> list_all is_digit (take 3 (drop 16 u)) \<and>
      drop 19 u = ''Z'')"

definition is_iso8601 :: "string \<Rightarrow> bool" where
  "is_iso8601 s =
     (case s of
        [] \<Rightarrow> False
      | c # r \<Rightarrow>
          if c = CHR ''+'' \<or> c = CHR ''-''
          then list_all is_digit (take 6 r) \<and> length (take 6 r) = 6 \<and>
               iso_rest (digits_value (take 6 r)) (drop 6 r)
          else list_all is_digit (take 4 s) \<and> length (take 4 s) = 4 \<and>
               iso_rest (digits_value (take 4 s)) (drop 4 s))"


section \<open>Middleware/auth.js\<close>


subsection \<open>Module initialisation\<close>

record process_env =
  env_API_KEYS :: "string option"
  env_JWT_SECRET :: "string option"
  env_NODE_ENV :: "string option"

definition DEFAULT_DEV_JWT_SECRET :: string where
  "DEFAULT_DEV_JWT_SECRET = ''super_insecure_dev_key_PLEASE_CHANGE''"

text \<open>
  What the module holds once it is loaded: the whitelist constant \<open>API_KEYS\<close>, computed
  once, and \<open>process.env\<close> as the start-up check leaves it.
\<close>

record auth_module =
  API_KEYS :: "string list"
  env :: process_env

datatype 'a startup = Exit int | Loaded 'a

text \<open>
  A string that may be undefined, used as a condition: \<open>truthy_str v\<close> is the string
  when \<open>v\<close> is truthy (defined and not empty) and \<open>None\<close> when \<open>!v\<close> holds.
\<close>

definition truthy_str :: "string option \<Rightarrow> string option" where
  "truthy_str v = (case v of None \<Rightarrow> None | Some s \<Rightarrow> if s = [] then None else Some s)"

definition load_auth_module :: "process_env \<Rightarrow> auth_module startup" where
  "load_auth_module e =
     (let keys0 = (case env_API_KEYS e of
                     None \<Rightarrow> []
                   | Some s \<Rightarrow> filter (\<lambda>k. k \<noteq> []) (split CHR '','' s));
          JWT_SECRET = env_JWT_SECRET e
      in
        if truthy_str JWT_SECRET = None \<or> JWT_SECRET = Some DEFAULT_DEV_JWT_SECRET then
          (if env_NODE_ENV e = Some ''production'' then Exit 1
           else if truthy_str JWT_SECRET = None then
             Loaded \<lparr>API_KEYS = keys0, env = e\<lparr>env_JWT_SECRET := Some DEFAULT_DEV_JWT_SECRET\<rparr>\<rparr>
           else Loaded \<lparr>API_KEYS = keys0, env = e\<rparr>)
        else Loaded \<lparr>API_KEYS = keys0, env = e\<rparr>)"

subsection \<open>authenticateRequest\<close>

text \<open>
  The two headers the middleware reads through \<open>req.header\<close>: \<open>None\<close> when the request
  does not carry the header, \<open>Some v\<close> with the header's value otherwise (the value may
  be the empty string).
\<close>

record auth_request =
  x_api_key :: "string option"
  authorization :: "string option"

text \<open>
  \<open>jwt.verify\<close> belongs to the jsonwebtoken library. It either returns the decoded
  claims or throws an error with a \<open>name\<close> and a \<open>message\<close>; the middleware is
  modelled over any such function.
\<close>

datatype jwt_outcome = Decoded js_value | Throws string string

type_synonym jwt_verify = "string \<Rightarrow> string \<Rightarrow> jwt_outcome"

text \<open>
  The terminal actions: \<open>Next a\<close> sets \<open>req.auth = a\<close> and calls \<open>next()\<close>;
  \<open>Respond s b\<close> is \<open>res.status(s).json(b)\<close>.
\<close>

datatype auth_outcome = Next js_value | Respond int js_value

definition error_body :: "int \<Rightarrow> string \<Rightarrow> string \<Rightarrow> js_value" where
  "error_body code msg now =
     JObj [(''status'', JStr ''error''), (''code'', JNum (Fin code)),
           (''message'', JStr msg), (''timestamp'', JStr now)]"

definition msg_invalid_api_key :: string where
  "msg_invalid_api_key = ''API Key inv'' @ [CHR 0xE1] @ ''lida.''"

definition msg_token_missing :: string where
  "msg_token_missing = ''Token de autenticaci'' @ [CHR 0xF3] @ ''n no proporcionado.''"

definition msg_secret_missing :: string where
  "msg_secret_missing =
     ''Error de configuraci'' @ [CHR 0xF3] @ ''n del servidor: clave secreta JWT no disponible.''"

definition msg_token_invalid :: string where
  "msg_token_invalid = ''Token inv'' @ [CHR 0xE1] @ ''lido.''"

definition msg_token_expired :: string where
  "msg_token_expired = ''Token expirado. Por favor, vuelva a autenticarse.''"

definition msg_token_malformed :: string where
  "msg_token_malformed = ''Token JWT mal formado o inv'' @ [CHR 0xE1] @ ''lido.''"

definition msg_access_denied :: string where
  "msg_access_denied =
     ''Acceso denegado. Proporcione una API Key v'' @ [CHR 0xE1] @
     ''lida o un token JWT en el encabezado '' @ [CHR 0x27] @ ''Authorization'' @ [CHR 0x27] @ ''.''"

text \<open>The \<open>catch\<close> block around \<open>jwt.verify\<close> (auth.js lines 113-135).\<close>

definition jwt_failure :: "string \<Rightarrow> string \<Rightarrow> auth_outcome" where
  "jwt_failure now error_name =
     (let errorMessage0 = msg_token_invalid;
          statusCode = 401;
          errorMessage =
            (if error_name = ''TokenExpiredError'' then msg_token_expired
             else if error_name = ''JsonWebTokenError'' then msg_token_malformed
             else errorMessage0)
      in Respond statusCode (error_body statusCode errorMessage now))"

text \<open>
  The middleware. \<open>now\<close> is what \<open>new Date().toISOString()\<close> returns when the response
  is built. Nothing in the body can throw outside the inner \<open>try\<close>, so the outer
  \<open>catch\<close> (status 500) is not a branch of the model.
\<close>

definition authenticateRequest ::
    "auth_module \<Rightarrow> jwt_verify \<Rightarrow> string \<Rightarrow> auth_request \<Rightarrow> auth_outcome" where
  "authenticateRequest m verify now req =
     (let apiKey = x_api_key req;
          authHeader = authorization req
      in
        case truthy_str apiKey of
          Some k \<Rightarrow>
            if k \<in> set (API_KEYS m)
            then Next (JObj [(''method'', JStr ''apiKey''), (''apiKey'', JStr k)])
            else Respond 401 (error_body 401 msg_invalid_api_key now)
        | None \<Rightarrow>
            (case authHeader of
               Some h \<Rightarrow>
                 if prefix ''Bearer '' h then
                   (case truthy_str (at_index (split CHR '' '' h) 1) of
                      None \<Rightarrow> Respond 401 (error_body 401 msg_token_missing now)
                    | Some token \<Rightarrow>
                        (case truthy_str (env_JWT_SECRET (env m)) of
                           None \<Rightarrow> Respond 500 (error_body 500 msg_secret_missing now)
                         | Some secret \<Rightarrow>
                             (case verify token secret of
                                Decoded decoded \<Rightarrow>
                                  Next (JObj [(''method'', JStr ''jwt''), (''user'', decoded)])
                              | Throws error_name error_message \<Rightarrow>
                                  jwt_failure now error_name)))
                 else Respond 403 (error_body 403 msg_access_denied now)
             | None \<Rightarrow> Respond 403 (error_body 403 msg_access_denied now)))"


section \<open>The metrics module\<close>

subsection \<open>Store, requests and the response's finish event\<close>

record metrics_store =
  totalRequests :: nat
  successfulResponses :: nat
  failedResponses :: nat
  customCounters :: "(string \<times> nat) list"
  requestLog :: "js_value list"

definition MAX_LOG_ENTRIES :: nat where
  "MAX_LOG_ENTRIES = 1000"

definition initial_store :: metrics_store where
  "initial_store =
     \<lparr>totalRequests = 0, successfulResponses = 0, failedResponses = 0,
      customCounters = [], requestLog = []\<rparr>"

text \<open>The fields of \<open>req\<close> that the middleware reads.\<close>

record request =
  req_method :: string
  originalUrl :: string

text \<open>
  The process as the middleware sees it: the module's store, the monotonic clock that
  \<open>process.hrtime.bigint()\<close> reads (nanoseconds), and the listeners that
  \<open>res.on("finish", ...)\<close> has registered. A listener is the closure of the callback:
  the response object it hangs on (a number stands for the object's identity), and the
  \<open>req\<close> and \<open>startTime\<close> it captured.
\<close>

record process_state =
  metricsStore :: metrics_store
  hrtime :: nat
  listeners :: "(nat \<times> request \<times> nat) list"

definition initial_process :: process_state where
  "initial_process = \<lparr>metricsStore = initial_store, hrtime = 0, listeners = []\<rparr>"

text \<open>
  Lines 62-68: \<open>requestLog.push(logEntry)\<close>, then \<open>requestLog.shift()\<close> when the length
  exceeds \<open>MAX_LOG_ENTRIES\<close>.
\<close>

definition push_log :: "js_value \<Rightarrow> js_value list \<Rightarrow> js_value list" where
  "push_log logEntry log =
     (let log1 = log @ [logEntry]
      in if length log1 > MAX_LOG_ENTRIES then tl log1 else log1)"

text \<open>BigInt division by a non-zero divisor: the quotient is truncated towards zero.\<close>

definition bigint_div :: "int \<Rightarrow> int \<Rightarrow> int" where
  "bigint_div a b =
     (if (a < 0) = (b < 0) then \<bar>a\<bar> div \<bar>b\<bar> else - (\<bar>a\<bar> div \<bar>b\<bar>))"

text \<open>
  Lines 42 and 52-61. \<open>durationNs / 1_000_000n\<close> is BigInt division, so the duration is
  a whole number of milliseconds; \<open>toFixed(2)\<close> followed by \<open>parseFloat\<close> gives the
  same number back.
\<close>

definition make_log_entry :: "request \<Rightarrow> int \<Rightarrow> int \<Rightarrow> string \<Rightarrow> js_value" where
  "make_log_entry req statusCode durationNs now =
     JObj [(''method'', JStr (req_method req)),
           (''path'', JStr (originalUrl req)),
           (''status'', JNum (Fin statusCode)),
           (''durationMs'', JNum (Fin (bigint_div durationNs 1000000))),
           (''timestamp'', JStr now)]"

text \<open>
  The callback of lines 39-69, run at the clock reading \<open>endTime\<close> with
  \<open>res.statusCode = statusCode\<close>; \<open>now\<close> is \<open>new Date().toISOString()\<close>.
\<close>

definition on_finish ::
    "request \<Rightarrow> nat \<Rightarrow> int \<Rightarrow> nat \<Rightarrow> string \<Rightarrow> metrics_store \<Rightarrow> metrics_store" where
  "on_finish req startTime statusCode endTime now st =
     (let durationNs = int endTime - int startTime;
          st1 = (if statusCode \<ge> 200 \<and> statusCode < 400
                 then st\<lparr>successfulResponses := successfulResponses st + 1\<rparr>
                 else st\<lparr>failedResponses := failedResponses st + 1\<rparr>);
          logEntry = make_log_entry req statusCode durationNs now
      in st1\<lparr>requestLog := push_log logEntry (requestLog st1)\<rparr>)"

text \<open>
  \<open>metricsMiddleware(req, res, next)\<close>: count the request, read the clock, register the
  callback on \<open>res\<close>. The call of \<open>next()\<close> hands over to the rest of the chain and
  does not touch the store.
\<close>

definition metricsMiddleware :: "request \<Rightarrow> nat \<Rightarrow> process_state \<Rightarrow> process_state" where
  "metricsMiddleware req res w =
     (let st = metricsStore w;
          st' = st\<lparr>totalRequests := totalRequests st + 1\<rparr>;
          startTime = hrtime w
      in w\<lparr>metricsStore := st', listeners := listeners w @ [(res, req, startTime)]\<rparr>)"

text \<open>
  Node emits \<open>finish\<close> once per response: every callback registered on that response
  runs, in registration order, and none of them runs again.
\<close>

definition emit_finish :: "nat \<Rightarrow> int \<Rightarrow> string \<Rightarrow> process_state \<Rightarrow> process_state" where
  "emit_finish res statusCode now w =
     (let mine = filter (\<lambda>l. fst l = res) (listeners w);
          st' = foldl (\<lambda>st (r, req, startTime).
                         on_finish req startTime statusCode (hrtime w) now st)
                      (metricsStore w) mine
      in w\<lparr>metricsStore := st', listeners := filter (\<lambda>l. fst l \<noteq> res) (listeners w)\<rparr>)"

text \<open>
  What happens to the process, one event at a time. Each event carries the time \<open>dt\<close>
  (nanoseconds) that has passed on the monotonic clock since the previous one.
  \<open>Incoming res req dt\<close>: Express passes a request to the middleware.
  \<open>Finish res statusCode dt t\<close>: the response \<open>res\<close> has been sent; \<open>t\<close> is the time
  value that \<open>new Date()\<close> takes from the wall clock when the callback runs.
\<close>

datatype event =
    Incoming nat request nat
  | Finish nat int nat nat

fun step :: "process_state \<Rightarrow> event \<Rightarrow> process_state" where
  "step w (Incoming res req dt) = metricsMiddleware req res (w\<lparr>hrtime := hrtime w + dt\<rparr>)"
| "step w (Finish res statusCode dt t) =
     emit_finish res statusCode (toISOString t) (w\<lparr>hrtime := hrtime w + dt\<rparr>)"

definition run :: "event list \<Rightarrow> process_state" where
  "run evs = foldl step initial_process evs"

text \<open>The log entries that an event creates, and those a whole trace creates, in order.\<close>

fun created_by :: "process_state \<Rightarrow> event \<Rightarrow> js_value list" where
  "created_by w (Incoming res req dt) = []"
| "created_by w (Finish res statusCode dt t) =
     map (\<lambda>(r, req, startTime).
            make_log_entry req statusCode (int (hrtime w + dt) - int startTime) (toISOString t))
         (filter (\<lambda>l. fst l = res) (listeners w))"

fun created :: "process_state \<Rightarrow> event list \<Rightarrow> js_value list" where
  "created w [] = []"
| "created w (ev # evs) = created_by w ev @ created (step w ev) evs"

fun is_incoming :: "event \<Rightarrow> bool" where
  "is_incoming (Incoming res req dt) = True"
| "is_incoming (Finish res statusCode dt t) = False"

text \<open>
  The monotonic clock never runs backwards, so no callback has captured a start time
  later than the present reading.
\<close>

definition clock_ok :: "process_state \<Rightarrow> bool" where
  "clock_ok w = list_all (\<lambda>l. snd (snd l) \<le> hrtime w) (listeners w)"

text \<open>
  The balance the counters keep while responses are in flight: every request counted
  has either finished, as a success or a failure, or still has its callback registered.
\<close>

definition balanced :: "process_state \<Rightarrow> bool" where
  "balanced w =
     (totalRequests (metricsStore w) =
        successfulResponses (metricsStore w) + failedResponses (metricsStore w) +
        length (listeners w))"

subsection \<open>getLastRequests\<close>


text \<open>
  A sample trace: \<open>n\<close> requests, numbered from \<open>k\<close>, served one after the other, each
  answered with status 200 after three milliseconds.
\<close>

definition sequential_requests :: "nat \<Rightarrow> nat \<Rightarrow> event list" where
  "sequential_requests k n =
     concat (map (\<lambda>i. [Incoming i \<lparr>req_method = ''GET'', originalUrl = ''/r/'' @ nat_to_string i\<rparr> 0,
                        Finish i 200 3000000 1751740200000])
                 [k..<k + n])"

text \<open>
  \<open>parseInt(v, 10)\<close> first converts its argument to a string. An integer of magnitude
  below \<open>2^53\<close> prints as its decimal digits. From there on \<open>Number.prototype.toString\<close>
  prints the digits of the shortest decimal that reads back as the same double, in
  exponent notation from \<open>10^21\<close>; the model takes that string from the runtime, as the
  function \<open>np\<close>.
\<close>

type_synonym number_printer = "int \<Rightarrow> string"

fun to_string :: "number_printer \<Rightarrow> js_value \<Rightarrow> string" where
  "to_string np JUndefined = ''undefined''"
| "to_string np JNull = ''null''"
| "to_string np (JBool b) = (if b then ''true'' else ''false'')"
| "to_string np (JNum NaN) = ''NaN''"
| "to_string np (JNum PosInf) = ''Infinity''"
| "to_string np (JNum NegInf) = ''-Infinity''"
| "to_string np (JNum (Fin n)) =
     (if \<bar>n\<bar> < 9007199254740992
      then (if n < 0 then CHR ''-'' # nat_to_string (nat (- n)) else nat_to_string (nat n))
      else np n)"
| "to_string np (JStr s) = s"
| "to_string np (JObj kvs) = ''[object Object]''"

text \<open>
  \<open>parseInt(v, 10)\<close>: skip leading white space, read an optional sign, then the longest
  run of decimal digits. The result is an integer, or \<open>NaN\<close> (here \<open>None\<close>) when there
  is no digit. (JavaScript rounds a long run of digits to the nearest double; the
  result is only ever compared with the length of the log.)
\<close>

definition parseInt :: "number_printer \<Rightarrow> js_value \<Rightarrow> int option" where
  "parseInt np v =
     (let s = dropWhile isWhiteSpace (to_string np v);
          negative = (case s of c # cs \<Rightarrow> c = CHR ''-'' | [] \<Rightarrow> False);
          s' = (case s of c # cs \<Rightarrow> if c = CHR ''-'' \<or> c = CHR ''+'' then cs else s | [] \<Rightarrow> s);
          ds = takeWhile is_digit s'
      in if ds = [] then None
         else (let n = int (digits_value ds)
               in Some (if negative then - n else n)))"

text \<open>
  Line 132: \<open>Math.max(1, parseInt(limit, 10) || 10)\<close>. The operator \<open>||\<close> replaces
  \<open>NaN\<close> and \<open>0\<close>, the two falsy numbers, by 10.
\<close>

definition effective_limit :: "number_printer \<Rightarrow> js_value \<Rightarrow> int" where
  "effective_limit np limit =
     max 1 (case parseInt np limit of
              Some n \<Rightarrow> if n \<noteq> 0 then n else 10
            | None \<Rightarrow> 10)"

text \<open>
  \<open>getLastRequests(limit = 10)\<close>: the default applies when the argument is undefined.
  \<open>slice(-k)\<close> keeps the last \<open>k\<close> elements, all of them when there are fewer.
\<close>

definition getLastRequests ::
    "number_printer \<Rightarrow> js_value \<Rightarrow> metrics_store \<Rightarrow> js_value list" where
  "getLastRequests np arg st =
     (let limit = (if arg = JUndefined then JNum (Fin 10) else arg);
          effectiveLimit = effective_limit np limit;
          log = requestLog st
      in if length log = 0 then []
         else rev (drop (length log - nat effectiveLimit) log))"


section \<open>Middleware/validacion.js: validarInteraccion\<close>

datatype js_error = TypeError | Error

datatype validation_outcome = Proceed | Reject int js_value

definition msg_field_required :: "string \<Rightarrow> string" where
  "msg_field_required field =
     ''El campo '' @ [CHR 0x27] @ field @ [CHR 0x27] @
     '' es obligatorio y debe ser una cadena v'' @ [CHR 0xE1] @ ''lida no vac'' @ [CHR 0xED] @ ''a.''"

text \<open>
  The test applied to each field:
  \<open>!v || typeof v !== "string" || v.trim() === ""\<close>. The last disjunct is reached
  only for a string.
\<close>

definition invalid_field :: "js_value \<Rightarrow> bool" where
  "invalid_field v =
     (\<not> truthy v \<or> typeof v \<noteq> ''string'' \<or>
      (case v of JStr s \<Rightarrow> trim s = [] | _ \<Rightarrow> False))"

definition validation_body :: "string \<Rightarrow> string \<Rightarrow> js_value" where
  "validation_body field now =
     JObj [(''status'', JStr ''error''), (''code'', JNum (Fin 400)),
           (''message'', JStr (msg_field_required field)),
           (''details'', JObj [(''parameter'', JStr field)]),
           (''timestamp'', JStr now)]"

text \<open>
  \<open>body\<close> is \<open>req.body\<close>. Destructuring \<open>undefined\<close> or \<open>null\<close> throws a TypeError;
  on any other value a missing property reads as undefined.
\<close>

definition validarInteraccion :: "string \<Rightarrow> js_value \<Rightarrow> js_error + validation_outcome" where
  "validarInteraccion now body =
     (if body = JUndefined \<or> body = JNull then Inl TypeError
      else
        (let usuarioId = get_prop body ''usuarioId'';
             mensajeUsuario = get_prop body ''mensajeUsuario''
         in if invalid_field usuarioId
            then Inr (Reject 400 (validation_body ''usuarioId'' now))
            else if invalid_field mensajeUsuario
            then Inr (Reject 400 (validation_body ''mensajeUsuario'' now))
            else Inr Proceed))"


section \<open>Middleware/validacion.js: AppError and Errores.Custom\<close>

text \<open>
  The fields that the constructor of \<open>AppError\<close> sets. \<open>code\<close> and \<open>details\<close> hold
  whatever the caller passes, so they are JavaScript values.
\<close>

record AppError =
  name :: string
  message :: string
  code :: js_value
  details :: js_value
  timestamp :: string

text \<open>What the module writes to the console.\<close>

datatype console_call =
    Console_error AppError
  | Console_warn_code js_value

text \<open>
  \<open>new AppError(message, code, details = {}, shouldLog = false)\<close>; \<open>now\<close> is
  \<open>new Date().toISOString()\<close>. A default applies when the argument is undefined.
\<close>

definition new_AppError ::
    "string \<Rightarrow> js_value \<Rightarrow> js_value \<Rightarrow> js_value \<Rightarrow> string \<Rightarrow> AppError \<times> console_call list" where
  "new_AppError msg code0 details0 shouldLog0 now =
     (let details1 = (if details0 = JUndefined then JObj [] else details0);
          shouldLog = (if shouldLog0 = JUndefined then JBool False else shouldLog0);
          this = \<lparr>name = ''AppError'', message = msg, code = code0,
                  details = details1, timestamp = now\<rparr>
      in (this, if truthy shouldLog then [Console_error this] else []))"


text \<open>The comparisons \<open>code < 100\<close> and \<open>code >= 600\<close>: both are false on \<open>NaN\<close>.\<close>

fun num_less :: "js_number \<Rightarrow> int \<Rightarrow> bool" where
  "num_less NaN k = False"
| "num_less PosInf k = False"
| "num_less NegInf k = True"
| "num_less (Fin n) k = (n < k)"

fun num_ge :: "js_number \<Rightarrow> int \<Rightarrow> bool" where
  "num_ge NaN k = False"
| "num_ge PosInf k = True"
| "num_ge NegInf k = False"
| "num_ge (Fin n) k = (n \<ge> k)"

text \<open>
  \<open>typeof code !== "number" || code < 100 || code >= 600\<close> (line 406).
\<close>

definition code_rejected :: "js_value \<Rightarrow> bool" where
  "code_rejected c =
     (case c of
        JNum n \<Rightarrow> num_less n 100 \<or> num_ge n 600
      | _ \<Rightarrow> True)"

text \<open>
  \<open>Errores.Custom(message, code = 500, details = {}, shouldLog = false)\<close>. It throws
  when \<open>message\<close> is not a string or is blank; otherwise it returns the error together
  with what was written to the console.
\<close>

definition Custom ::
    "js_value \<Rightarrow> js_value \<Rightarrow> js_value \<Rightarrow> js_value \<Rightarrow> string
       \<Rightarrow> js_error + (AppError \<times> console_call list)" where
  "Custom msg code0 details0 shouldLog0 now =
     (case msg of
        JStr m \<Rightarrow>
          if trim m = [] then Inl Error
          else
            (let code1 = (if code0 = JUndefined then JNum (Fin 500) else code0);
                 details1 = (if details0 = JUndefined then JObj [] else details0);
                 shouldLog = (if shouldLog0 = JUndefined then JBool False else shouldLog0);
                 warned = (if code_rejected code1 then [Console_warn_code code1] else []);
                 code2 = (if code_rejected code1 then JNum (Fin 500) else code1);
                 (this, logged) = new_AppError m code2 details1 shouldLog now
             in Inr (this, warned @ logged))
      | _ \<Rightarrow> Inl Error)"

text \<open>The codes the specification allows: the integers from 100 up to, not including, 600.\<close>

definition code_in_range :: "js_value \<Rightarrow> bool" where
  "code_in_range c = (case c of JNum (Fin n) \<Rightarrow> 100 \<le> n \<and> n < 600 | _ \<Rightarrow> False)"

subsection \<open>Errores.InternalServerError\<close>





subsection \<open>JSON\<close>





section \<open>Properties of authenticateRequest\<close>

lemma split_not_Nil: "split sep s \<noteq> []"
  by (induction s) (auto split: list.splits)

lemma authenticateRequest_api_key:
  assumes "x_api_key req = Some k" and "k \<noteq> []"
  shows "authenticateRequest m verify now req =
           (if k \<in> set (API_KEYS m)
            then Next (JObj [(''method'', JStr ''apiKey''), (''apiKey'', JStr k)])
            else Respond 401 (error_body 401 msg_invalid_api_key now))"
  using assms by (simp add: authenticateRequest_def truthy_str_def)

lemma authenticateRequest_no_api_key:
  assumes "truthy_str (x_api_key req) = None"
  shows "authenticateRequest m verify now req =
           (case authorization req of
              Some h \<Rightarrow>
                if prefix ''Bearer '' h then
                  (case truthy_str (at_index (split CHR '' '' h) 1) of
                     None \<Rightarrow> Respond 401 (error_body 401 msg_token_missing now)
                   | Some token \<Rightarrow>
                       (case truthy_str (env_JWT_SECRET (env m)) of
                          None \<Rightarrow> Respond 500 (error_body 500 msg_secret_missing now)
                        | Some secret \<Rightarrow>
                            (case verify token secret of
                               Decoded decoded \<Rightarrow>
                                 Next (JObj [(''method'', JStr ''jwt''), (''user'', decoded)])
                             | Throws error_name error_message \<Rightarrow> jwt_failure now error_name)))
                else Respond 403 (error_body 403 msg_access_denied now)
            | None \<Rightarrow> Respond 403 (error_body 403 msg_access_denied now))"
  using assms by (simp add: authenticateRequest_def)

text \<open>
  A module that has loaded has a usable secret and no empty key in its whitelist:
  start-up either stops the process or leaves \<open>process.env.JWT_SECRET\<close> set, and
  \<open>filter(Boolean)\<close> drops the empty pieces of the configured list.
\<close>

lemma loaded_secret:
  assumes "load_auth_module e = Loaded m"
  shows "\<exists>secret. env_JWT_SECRET (env m) = Some secret \<and> secret \<noteq> []"
  using assms
  by (auto simp: load_auth_module_def Let_def truthy_str_def DEFAULT_DEV_JWT_SECRET_def
           split: if_splits option.splits)

lemma loaded_whitelist:
  assumes "load_auth_module e = Loaded m"
  shows "API_KEYS m =
           (case env_API_KEYS e of
              None \<Rightarrow> []
            | Some s \<Rightarrow> filter (\<lambda>k. k \<noteq> []) (split CHR '','' s))"
  using assms by (auto simp: load_auth_module_def Let_def split: if_splits option.splits)

lemma loaded_whitelist_no_empty_key:
  assumes "load_auth_module e = Loaded m"
  shows "[] \<notin> set (API_KEYS m)"
  using loaded_whitelist [OF assms] by (auto split: option.splits)

text \<open>
  C1 (as amended). A request whose \<open>X-API-KEY\<close> header is present with a non-empty
  value is decided by the whitelist computed when the module was loaded: a key in the
  whitelist sets \<open>req.auth = {method: "apiKey", apiKey}\<close> and calls the next handler; any
  other key is answered with status 401 and the message \<open>msg_invalid_api_key\<close>. The
  whitelist is the comma-separated \<open>API_KEYS\<close> of the environment without its empty pieces.
\<close>

theorem api_key_accept_iff_whitelisted:
  assumes "load_auth_module e = Loaded m"
      and "x_api_key req = Some k" and "k \<noteq> []"
  shows "(k \<in> set (API_KEYS m) \<longrightarrow>
            authenticateRequest m verify now req =
              Next (JObj [(''method'', JStr ''apiKey''), (''apiKey'', JStr k)])) \<and>
         (k \<notin> set (API_KEYS m) \<longrightarrow>
            authenticateRequest m verify now req =
              Respond 401 (JObj [(''status'', JStr ''error''), (''code'', JNum (Fin 401)),
                                 (''message'', JStr msg_invalid_api_key),
                                 (''timestamp'', JStr now)])) \<and>
         API_KEYS m =
           (case env_API_KEYS e of
              None \<Rightarrow> []
            | Some s \<Rightarrow> filter (\<lambda>k. k \<noteq> []) (split CHR '','' s))"
proof -
  have decide: "authenticateRequest m verify now req =
      (if k \<in> set (API_KEYS m)
       then Next (JObj [(''method'', JStr ''apiKey''), (''apiKey'', JStr k)])
       else Respond 401 (error_body 401 msg_invalid_api_key now))"
    by (rule authenticateRequest_api_key [OF assms(2,3)])
  have accept: "k \<in> set (API_KEYS m) \<longrightarrow>
      authenticateRequest m verify now req =
        Next (JObj [(''method'', JStr ''apiKey''), (''apiKey'', JStr k)])"
    using decide by simp
  have reject: "k \<notin> set (API_KEYS m) \<longrightarrow>
      authenticateRequest m verify now req =
        Respond 401 (JObj [(''status'', JStr ''error''), (''code'', JNum (Fin 401)),
                           (''message'', JStr msg_invalid_api_key),
                           (''timestamp'', JStr now)])"
    using decide by (simp add: error_body_def)
  from accept reject loaded_whitelist [OF assms(1)] show ?thesis
    by (intro conjI)
qed

theorem api_key_accept_iff_whitelisted_witness:
  "load_auth_module
     \<lparr>env_API_KEYS = Some ''validkey123,other'', env_JWT_SECRET = Some ''s3cret'',
      env_NODE_ENV = Some ''production''\<rparr> =
   Loaded \<lparr>API_KEYS = [''validkey123'', ''other''],
           env = \<lparr>env_API_KEYS = Some ''validkey123,other'', env_JWT_SECRET = Some ''s3cret'',
                  env_NODE_ENV = Some ''production''\<rparr>\<rparr> \<and>
   authenticateRequest
     \<lparr>API_KEYS = [''validkey123'', ''other''],
      env = \<lparr>env_API_KEYS = Some ''validkey123,other'', env_JWT_SECRET = Some ''s3cret'',
             env_NODE_ENV = Some ''production''\<rparr>\<rparr>
     (\<lambda>t s. Throws ''JsonWebTokenError'' ''jwt malformed'') ''2025-07-05T18:30:00.000Z''
     \<lparr>x_api_key = Some ''validkey123'', authorization = None\<rparr> =
   Next (JObj [(''method'', JStr ''apiKey''), (''apiKey'', JStr ''validkey123'')]) \<and>
   authenticateRequest
     \<lparr>API_KEYS = [''validkey123'', ''other''],
      env = \<lparr>env_API_KEYS = Some ''validkey123,other'', env_JWT_SECRET = Some ''s3cret'',
             env_NODE_ENV = Some ''production''\<rparr>\<rparr>
     (\<lambda>t s. Throws ''JsonWebTokenError'' ''jwt malformed'') ''2025-07-05T18:30:00.000Z''
     \<lparr>x_api_key = Some ''wrongkey'', authorization = None\<rparr> =
   Respond 401 (JObj [(''status'', JStr ''error''), (''code'', JNum (Fin 401)),
                      (''message'', JStr msg_invalid_api_key),
                      (''timestamp'', JStr ''2025-07-05T18:30:00.000Z'')])"
proof -
  let ?e = "\<lparr>env_API_KEYS = Some ''validkey123,other'', env_JWT_SECRET = Some ''s3cret'',
             env_NODE_ENV = Some ''production''\<rparr>"
  let ?m = "\<lparr>API_KEYS = [''validkey123'', ''other''], env = ?e\<rparr>"
  let ?v = "\<lambda>(t::string) (s::string). Throws ''JsonWebTokenError'' ''jwt malformed''"
  have load: "load_auth_module ?e = Loaded ?m"
    by (simp add: load_auth_module_def truthy_str_def DEFAULT_DEV_JWT_SECRET_def)
  have good: "x_api_key \<lparr>x_api_key = Some ''validkey123'', authorization = None\<rparr> = Some ''validkey123''"
    by simp
  have bad: "x_api_key \<lparr>x_api_key = Some ''wrongkey'', authorization = None\<rparr> = Some ''wrongkey''"
    by simp
  show ?thesis
    using load
      api_key_accept_iff_whitelisted [OF load good, of ?v "''2025-07-05T18:30:00.000Z''"]
      api_key_accept_iff_whitelisted [OF load bad, of ?v "''2025-07-05T18:30:00.000Z''"]
    by simp
qed

text \<open>
  C1 as stated fails when the header is present with an empty value: \<open>if (apiKey)\<close>
  takes the empty string for no key at all, so the request is not answered with 401
  \<open>msg_invalid_api_key\<close> although the empty key is not in the whitelist; with no
  \<open>Authorization\<close> header it is answered with 403.
\<close>

theorem api_key_present_but_empty_counterexample:
  "x_api_key \<lparr>x_api_key = Some '''', authorization = None\<rparr> = Some '''' \<and>
   '''' \<notin> set (API_KEYS \<lparr>API_KEYS = [''validkey123''],
                           env = \<lparr>env_API_KEYS = Some ''validkey123'',
                                  env_JWT_SECRET = Some ''s3cret'',
                                  env_NODE_ENV = Some ''production''\<rparr>\<rparr>) \<and>
   authenticateRequest
     \<lparr>API_KEYS = [''validkey123''],
      env = \<lparr>env_API_KEYS = Some ''validkey123'', env_JWT_SECRET = Some ''s3cret'',
             env_NODE_ENV = Some ''production''\<rparr>\<rparr>
     (\<lambda>t s. Throws ''JsonWebTokenError'' ''jwt malformed'') ''2025-07-05T18:30:00.000Z''
     \<lparr>x_api_key = Some '''', authorization = None\<rparr> =
   Respond 403 (error_body 403 msg_access_denied ''2025-07-05T18:30:00.000Z'')"
  by (simp add: authenticateRequest_def truthy_str_def)


text \<open>
  C2. Take a module that has loaded and a request with no \<open>X-API-KEY\<close> header (or an
  empty one) whose \<open>Authorization\<close> header starts with \<open>Bearer\<close> and a space and carries a
  non-empty token (the second piece of the header split at spaces). The module then has
  a secret to verify the token against. When \<open>jwt.verify\<close> throws a \<open>TokenExpiredError\<close>
  the answer is status 401 with the body
  \<open>{status: "error", code: 401, message: "Token expirado. ...", timestamp}\<close>; when it
  throws a \<open>JsonWebTokenError\<close> the answer is status 401 with the same body but the
  message \<open>msg_token_malformed\<close> ("Token JWT mal formado o ..."); the two answers differ,
  and both messages are spelled out. A request that
  presents neither credential (no \<open>X-API-KEY\<close> header or an empty one, and no
  \<open>Authorization\<close> header or one that does not start with \<open>Bearer\<close> and a space) is
  answered with status 403 and the body
  \<open>{status: "error", code: 403, message: "Acceso denegado. ...", timestamp}\<close>.
\<close>

theorem bearer_failures_401_and_no_credentials_403:
  assumes "load_auth_module e = Loaded m"
      and "x_api_key req = None \<or> x_api_key req = Some ''''"
  shows "(authorization req = Some h \<and> prefix ''Bearer '' h \<and>
          at_index (split CHR '' '' h) 1 = Some token \<and> token \<noteq> []
          \<longrightarrow> (\<exists>secret. env_JWT_SECRET (env m) = Some secret \<and> secret \<noteq> [] \<and>
                (verify token secret = Throws ''TokenExpiredError'' msg \<longrightarrow>
                   authenticateRequest m verify now req =
                     Respond 401
                       (JObj [(''status'', JStr ''error''), (''code'', JNum (Fin 401)),
                              (''message'', JStr msg_token_expired),
                              (''timestamp'', JStr now)])) \<and>
                (verify token secret = Throws ''JsonWebTokenError'' msg \<longrightarrow>
                   authenticateRequest m verify now req =
                     Respond 401
                       (JObj [(''status'', JStr ''error''), (''code'', JNum (Fin 401)),
                              (''message'', JStr msg_token_malformed),
                              (''timestamp'', JStr now)])))) \<and>
         Respond 401 (JObj [(''status'', JStr ''error''), (''code'', JNum (Fin 401)),
                            (''message'', JStr msg_token_expired),
                            (''timestamp'', JStr now)]) \<noteq>
         Respond 401 (JObj [(''status'', JStr ''error''), (''code'', JNum (Fin 401)),
                            (''message'', JStr msg_token_malformed),
                            (''timestamp'', JStr now)]) \<and>
         msg_token_expired = ''Token expirado. Por favor, vuelva a autenticarse.'' \<and>
         msg_token_malformed = ''Token JWT mal formado o inv'' @ [CHR 0xE1] @ ''lido.'' \<and>
         (authorization req = None \<or>
          (\<exists>h'. authorization req = Some h' \<and> \<not> prefix ''Bearer '' h')
          \<longrightarrow> authenticateRequest m verify now req =
                Respond 403
                  (JObj [(''status'', JStr ''error''), (''code'', JNum (Fin 403)),
                         (''message'', JStr msg_access_denied),
                         (''timestamp'', JStr now)]))"
proof -
  from assms(1) obtain secret where
    secret: "env_JWT_SECRET (env m) = Some secret" "secret \<noteq> []"
    using loaded_secret by blast
  have no_key: "truthy_str (x_api_key req) = None"
    using assms(2) by (auto simp: truthy_str_def)
  have differ: "msg_token_expired \<noteq> msg_token_malformed"
    by (simp add: msg_token_expired_def msg_token_malformed_def)
  have denied: "authenticateRequest m verify now req =
      Respond 403 (JObj [(''status'', JStr ''error''), (''code'', JNum (Fin 403)),
                         (''message'', JStr msg_access_denied), (''timestamp'', JStr now)])"
    if "authorization req = None \<or>
        (\<exists>h'. authorization req = Some h' \<and> \<not> prefix ''Bearer '' h')"
    using that no_key by (auto simp: authenticateRequest_def error_body_def)
  have bearer: "authenticateRequest m verify now req =
      (case verify token secret of
         Decoded decoded \<Rightarrow> Next (JObj [(''method'', JStr ''jwt''), (''user'', decoded)])
       | Throws error_name error_message \<Rightarrow> jwt_failure now error_name)"
    if "authorization req = Some h" "prefix ''Bearer '' h"
       "at_index (split CHR '' '' h) 1 = Some token" "token \<noteq> []"
    using that secret no_key by (simp add: authenticateRequest_def truthy_str_def)
  have expired: "jwt_failure now ''TokenExpiredError'' =
      Respond 401 (JObj [(''status'', JStr ''error''), (''code'', JNum (Fin 401)),
                         (''message'', JStr msg_token_expired), (''timestamp'', JStr now)])"
    by (simp add: jwt_failure_def error_body_def)
  have malformed: "jwt_failure now ''JsonWebTokenError'' =
      Respond 401 (JObj [(''status'', JStr ''error''), (''code'', JNum (Fin 401)),
                         (''message'', JStr msg_token_malformed), (''timestamp'', JStr now)])"
    by (simp add: jwt_failure_def error_body_def)
  have part1: "\<exists>secret. env_JWT_SECRET (env m) = Some secret \<and> secret \<noteq> [] \<and>
      (verify token secret = Throws ''TokenExpiredError'' msg \<longrightarrow>
         authenticateRequest m verify now req =
           Respond 401 (JObj [(''status'', JStr ''error''), (''code'', JNum (Fin 401)),
                              (''message'', JStr msg_token_expired),
                              (''timestamp'', JStr now)])) \<and>
      (verify token secret = Throws ''JsonWebTokenError'' msg \<longrightarrow>
         authenticateRequest m verify now req =
           Respond 401 (JObj [(''status'', JStr ''error''), (''code'', JNum (Fin 401)),
                              (''message'', JStr msg_token_malformed),
                              (''timestamp'', JStr now)]))"
    if "authorization req = Some h \<and> prefix ''Bearer '' h \<and>
        at_index (split CHR '' '' h) 1 = Some token \<and> token \<noteq> []"
  proof (intro exI conjI impI)
    show "env_JWT_SECRET (env m) = Some secret" by (rule secret(1))
    show "secret \<noteq> []" by (rule secret(2))
  next
    assume "verify token secret = Throws ''TokenExpiredError'' msg"
    then show "authenticateRequest m verify now req =
        Respond 401 (JObj [(''status'', JStr ''error''), (''code'', JNum (Fin 401)),
                           (''message'', JStr msg_token_expired), (''timestamp'', JStr now)])"
      using bearer that expired by simp
  next
    assume "verify token secret = Throws ''JsonWebTokenError'' msg"
    then show "authenticateRequest m verify now req =
        Respond 401 (JObj [(''status'', JStr ''error''), (''code'', JNum (Fin 401)),
                           (''message'', JStr msg_token_malformed), (''timestamp'', JStr now)])"
      using bearer that malformed by simp
  qed
  have part2: "Respond 401 (JObj [(''status'', JStr ''error''), (''code'', JNum (Fin 401)),
                            (''message'', JStr msg_token_expired),
                            (''timestamp'', JStr now)]) \<noteq>
         Respond 401 (JObj [(''status'', JStr ''error''), (''code'', JNum (Fin 401)),
                            (''message'', JStr msg_token_malformed),
                            (''timestamp'', JStr now)])"
    using differ by simp
  have part3: "msg_token_expired = ''Token expirado. Por favor, vuelva a autenticarse.''"
    by (simp add: msg_token_expired_def)
  have part4: "msg_token_malformed = ''Token JWT mal formado o inv'' @ [CHR 0xE1] @ ''lido.''"
    by (simp add: msg_token_malformed_def)
  from part1 part2 part3 part4 denied show ?thesis
    by (intro conjI impI)
qed

theorem bearer_failures_401_and_no_credentials_403_witness:
  "authenticateRequest
     \<lparr>API_KEYS = [''validkey123''],
      env = \<lparr>env_API_KEYS = Some ''validkey123'',
             env_JWT_SECRET = Some ''super_insecure_dev_key_PLEASE_CHANGE'',
             env_NODE_ENV = Some ''development''\<rparr>\<rparr>
     (\<lambda>t s. if t = ''old.jwt.token'' then Throws ''TokenExpiredError'' ''jwt expired''
            else Throws ''JsonWebTokenError'' ''jwt malformed'')
     ''2025-07-05T18:30:00.000Z''
     \<lparr>x_api_key = None, authorization = Some ''Bearer old.jwt.token''\<rparr> =
   Respond 401 (JObj [(''status'', JStr ''error''), (''code'', JNum (Fin 401)),
                      (''message'', JStr ''Token expirado. Por favor, vuelva a autenticarse.''),
                      (''timestamp'', JStr ''2025-07-05T18:30:00.000Z'')]) \<and>
   authenticateRequest
     \<lparr>API_KEYS = [''validkey123''],
      env = \<lparr>env_API_KEYS = Some ''validkey123'',
             env_JWT_SECRET = Some ''super_insecure_dev_key_PLEASE_CHANGE'',
             env_NODE_ENV = Some ''development''\<rparr>\<rparr>
     (\<lambda>t s. if t = ''old.jwt.token'' then Throws ''TokenExpiredError'' ''jwt expired''
            else Throws ''JsonWebTokenError'' ''jwt malformed'')
     ''2025-07-05T18:30:00.000Z''
     \<lparr>x_api_key = None, authorization = Some ''Bearer garbage''\<rparr> =
   Respond 401 (JObj [(''status'', JStr ''error''), (''code'', JNum (Fin 401)),
                      (''message'', JStr (''Token JWT mal formado o inv'' @ [CHR 0xE1] @ ''lido.'')),
                      (''timestamp'', JStr ''2025-07-05T18:30:00.000Z'')]) \<and>
   authenticateRequest
     \<lparr>API_KEYS = [''validkey123''],
      env = \<lparr>env_API_KEYS = Some ''validkey123'',
             env_JWT_SECRET = Some ''super_insecure_dev_key_PLEASE_CHANGE'',
             env_NODE_ENV = Some ''development''\<rparr>\<rparr>
     (\<lambda>t s. if t = ''old.jwt.token'' then Throws ''TokenExpiredError'' ''jwt expired''
            else Throws ''JsonWebTokenError'' ''jwt malformed'')
     ''2025-07-05T18:30:00.000Z''
     \<lparr>x_api_key = None, authorization = None\<rparr> =
   Respond 403 (JObj [(''status'', JStr ''error''), (''code'', JNum (Fin 403)),
                      (''message'', JStr msg_access_denied),
                      (''timestamp'', JStr ''2025-07-05T18:30:00.000Z'')]) \<and>
   authenticateRequest
     \<lparr>API_KEYS = [''validkey123''],
      env = \<lparr>env_API_KEYS = Some ''validkey123'',
             env_JWT_SECRET = Some ''super_insecure_dev_key_PLEASE_CHANGE'',
             env_NODE_ENV = Some ''development''\<rparr>\<rparr>
     (\<lambda>t s. if t = ''old.jwt.token'' then Throws ''TokenExpiredError'' ''jwt expired''
            else Throws ''JsonWebTokenError'' ''jwt malformed'')
     ''2025-07-05T18:30:00.000Z''
     \<lparr>x_api_key = Some '''', authorization = Some ''Basic dXNlcjpwYXNz''\<rparr> =
   Respond 403 (JObj [(''status'', JStr ''error''), (''code'', JNum (Fin 403)),
                      (''message'', JStr msg_access_denied),
                      (''timestamp'', JStr ''2025-07-05T18:30:00.000Z'')])"
proof -
  let ?e = "\<lparr>env_API_KEYS = Some ''validkey123'', env_JWT_SECRET = None,
             env_NODE_ENV = Some ''development''\<rparr>"
  let ?m = "\<lparr>API_KEYS = [''validkey123''],
             env = \<lparr>env_API_KEYS = Some ''validkey123'',
                    env_JWT_SECRET = Some ''super_insecure_dev_key_PLEASE_CHANGE'',
                    env_NODE_ENV = Some ''development''\<rparr>\<rparr>"
  let ?v = "\<lambda>(t::string) (s::string).
              if t = ''old.jwt.token'' then Throws ''TokenExpiredError'' ''jwt expired''
              else Throws ''JsonWebTokenError'' ''jwt malformed''"
  let ?now = "''2025-07-05T18:30:00.000Z''"
  have load: "load_auth_module ?e = Loaded ?m"
    by (simp add: load_auth_module_def truthy_str_def DEFAULT_DEV_JWT_SECRET_def)
  have tok1: "at_index (split CHR '' '' ''Bearer old.jwt.token'') 1 = Some ''old.jwt.token''"
    by (simp add: at_index_def)
  have tok2: "at_index (split CHR '' '' ''Bearer garbage'') 1 = Some ''garbage''"
    by (simp add: at_index_def)
  have k1: "x_api_key \<lparr>x_api_key = None, authorization = a\<rparr> = None \<or>
            x_api_key \<lparr>x_api_key = None, authorization = a\<rparr> = Some ''''" for a
    by simp
  have k2: "x_api_key \<lparr>x_api_key = Some '''', authorization = a\<rparr> = None \<or>
            x_api_key \<lparr>x_api_key = Some '''', authorization = a\<rparr> = Some ''''" for a
    by simp
  show ?thesis
    using tok1 tok2
      bearer_failures_401_and_no_credentials_403 [OF load k1,
        of "Some ''Bearer old.jwt.token''"
           "''Bearer old.jwt.token''" "''old.jwt.token''" ?v "''jwt expired''" ?now]
      bearer_failures_401_and_no_credentials_403 [OF load k1,
        of "Some ''Bearer garbage''"
           "''Bearer garbage''" "''garbage''" ?v "''jwt malformed''" ?now]
      bearer_failures_401_and_no_credentials_403 [OF load k1,
        of None "''Bearer garbage''" "''garbage''" ?v "''jwt malformed''" ?now]
      bearer_failures_401_and_no_credentials_403 [OF load k2,
        of "Some ''Basic dXNlcjpwYXNz''" "''Bearer garbage''" "''garbage''" ?v
           "''jwt malformed''" ?now]
    by simp
qed


text \<open>
  C10 (as amended). When the \<open>X-API-KEY\<close> header is present with a non-empty value, the
  outcome is that of the API-key branch alone: it is the same whatever the
  \<open>Authorization\<close> header holds and whatever \<open>jwt.verify\<close> would do. In particular a
  non-empty key outside the whitelist is answered with 401 even when the request also
  carries a Bearer token that verifies.
\<close>

theorem api_key_branch_ignores_authorization:
  assumes "x_api_key req = Some k" and "k \<noteq> []"
  shows "authenticateRequest m verify now (req\<lparr>authorization := h\<rparr>) =
           authenticateRequest m verify' now (req\<lparr>authorization := h'\<rparr>) \<and>
         (k \<notin> set (API_KEYS m) \<longrightarrow>
            authenticateRequest m (\<lambda>t s. Decoded claims) now
                (req\<lparr>authorization := Some (''Bearer '' @ t)\<rparr>) =
              Respond 401 (error_body 401 msg_invalid_api_key now))"
proof -
  have key: "x_api_key (req\<lparr>authorization := a\<rparr>) = Some k" for a
    using assms(1) by simp
  show ?thesis
    by (simp add: authenticateRequest_api_key [OF key assms(2)])
qed

theorem api_key_branch_ignores_authorization_witness:
  "authenticateRequest
     \<lparr>API_KEYS = [''validkey123''],
      env = \<lparr>env_API_KEYS = Some ''validkey123'', env_JWT_SECRET = Some ''s3cret'',
             env_NODE_ENV = Some ''production''\<rparr>\<rparr>
     (\<lambda>t s. Decoded (JObj [(''sub'', JStr ''u1'')])) ''2025-07-05T18:30:00.000Z''
     \<lparr>x_api_key = Some ''wrongkey'', authorization = Some ''Bearer good.jwt.token''\<rparr> =
   Respond 401 (error_body 401 msg_invalid_api_key ''2025-07-05T18:30:00.000Z'')"
proof -
  let ?m = "\<lparr>API_KEYS = [''validkey123''],
             env = \<lparr>env_API_KEYS = Some ''validkey123'', env_JWT_SECRET = Some ''s3cret'',
                    env_NODE_ENV = Some ''production''\<rparr>\<rparr>"
  let ?req = "\<lparr>x_api_key = Some ''wrongkey'', authorization = None\<rparr>"
  have key: "x_api_key ?req = Some ''wrongkey''" by simp
  have ne: "''wrongkey'' \<noteq> []" by simp
  show ?thesis
    using api_key_branch_ignores_authorization [OF key ne,
        of ?m "\<lambda>t s. Decoded (JObj [(''sub'', JStr ''u1'')])" "''2025-07-05T18:30:00.000Z''"
           None "\<lambda>t s. Decoded (JObj [(''sub'', JStr ''u1'')])" None
           "JObj [(''sub'', JStr ''u1'')]" "''good.jwt.token''"]
    by simp
qed

text \<open>
  C10 as stated fails when the header is present with an empty value: the empty key
  is never in a loaded whitelist, yet the request is not answered with 401; the
  \<open>Authorization\<close> header is evaluated and a Bearer token that verifies lets the
  request through as a JWT request.
\<close>

theorem empty_api_key_with_valid_bearer_counterexample:
  "load_auth_module
     \<lparr>env_API_KEYS = Some ''validkey123'', env_JWT_SECRET = Some ''s3cret'',
      env_NODE_ENV = Some ''production''\<rparr> =
   Loaded \<lparr>API_KEYS = [''validkey123''],
           env = \<lparr>env_API_KEYS = Some ''validkey123'', env_JWT_SECRET = Some ''s3cret'',
                  env_NODE_ENV = Some ''production''\<rparr>\<rparr> \<and>
   '''' \<notin> set [''validkey123''] \<and>
   authenticateRequest
     \<lparr>API_KEYS = [''validkey123''],
      env = \<lparr>env_API_KEYS = Some ''validkey123'', env_JWT_SECRET = Some ''s3cret'',
             env_NODE_ENV = Some ''production''\<rparr>\<rparr>
     (\<lambda>t s. if t = ''good.jwt.token'' \<and> s = ''s3cret''
            then Decoded (JObj [(''sub'', JStr ''u1'')])
            else Throws ''JsonWebTokenError'' ''invalid signature'')
     ''2025-07-05T18:30:00.000Z''
     \<lparr>x_api_key = Some '''', authorization = Some ''Bearer good.jwt.token''\<rparr> =
   Next (JObj [(''method'', JStr ''jwt''), (''user'', JObj [(''sub'', JStr ''u1'')])])"
  by (simp add: load_auth_module_def authenticateRequest_def truthy_str_def at_index_def
                DEFAULT_DEV_JWT_SECRET_def)


section \<open>Properties of toISOString\<close>

lemma digits_fixed_2: "digits_fixed 2 n = [digit_chars ! (n div 10 mod 10), digit_chars ! (n mod 10)]"
  by (simp add: numeral_2_eq_2)

lemma digits_fixed_3:
  "digits_fixed 3 n = [digit_chars ! (n div 10 div 10 mod 10), digit_chars ! (n div 10 mod 10),
                       digit_chars ! (n mod 10)]"
  by (simp add: numeral_3_eq_3)

lemma digits_fixed_4:
  "digits_fixed 4 n = [digit_chars ! (n div 10 div 10 div 10 mod 10),
                       digit_chars ! (n div 10 div 10 mod 10), digit_chars ! (n div 10 mod 10),
                       digit_chars ! (n mod 10)]"
proof -
  have "digits_fixed (Suc (Suc (Suc (Suc 0)))) n =
      [digit_chars ! (n div 10 div 10 div 10 mod 10),
       digit_chars ! (n div 10 div 10 mod 10), digit_chars ! (n div 10 mod 10),
       digit_chars ! (n mod 10)]"
    by simp
  moreover have "Suc (Suc (Suc (Suc 0))) = 4" by simp
  ultimately show ?thesis by (simp only:)
qed

lemma digits_fixed_6:
  "digits_fixed 6 n = [digit_chars ! (n div 10 div 10 div 10 div 10 div 10 mod 10),
                       digit_chars ! (n div 10 div 10 div 10 div 10 mod 10),
                       digit_chars ! (n div 10 div 10 div 10 mod 10),
                       digit_chars ! (n div 10 div 10 mod 10), digit_chars ! (n div 10 mod 10),
                       digit_chars ! (n mod 10)]"
proof -
  have "digits_fixed (Suc (Suc (Suc (Suc (Suc (Suc 0)))))) n =
      [digit_chars ! (n div 10 div 10 div 10 div 10 div 10 mod 10),
       digit_chars ! (n div 10 div 10 div 10 div 10 mod 10),
       digit_chars ! (n div 10 div 10 div 10 mod 10),
       digit_chars ! (n div 10 div 10 mod 10), digit_chars ! (n div 10 mod 10),
       digit_chars ! (n mod 10)]"
    by simp
  moreover have "Suc (Suc (Suc (Suc (Suc (Suc 0))))) = 6" by simp
  ultimately show ?thesis by (simp only:)
qed

lemma digit_chars_nth:
  assumes "k < 10"
  shows "is_digit (digit_chars ! k)" and "digit_value (digit_chars ! k) = k"
proof -
  from assms have "k = 0 \<or> k = 1 \<or> k = 2 \<or> k = 3 \<or> k = 4 \<or> k = 5 \<or> k = 6 \<or> k = 7 \<or> k = 8 \<or> k = 9"
    by arith
  then show "is_digit (digit_chars ! k)" and "digit_value (digit_chars ! k) = k"
    by (auto simp: digit_chars_def is_digit_def digit_value_def)
qed

lemma is_digit_not_sign: "is_digit c \<Longrightarrow> c \<noteq> CHR ''+'' \<and> c \<noteq> CHR ''-''"
  by (auto simp: is_digit_def digit_chars_def)

lemma digits_fixed_all: "list_all is_digit (digits_fixed k n)"
  by (induction k arbitrary: n) (simp_all add: digit_chars_nth(1))

lemma digits_fixed_length: "length (digits_fixed k n) = k"
  by (induction k arbitrary: n) simp_all

lemma digits_value_snoc: "digits_value (ds @ [c]) = digits_value ds * 10 + digit_value c"
  by (simp add: digits_value_def)

lemma digits_fixed_value: "digits_value (digits_fixed k n) = n mod 10 ^ k"
proof (induction k arbitrary: n)
  case 0
  then show ?case by (simp add: digits_value_def)
next
  case (Suc k)
  have "n mod (10 * 10 ^ k) = 10 * (n div 10 mod 10 ^ k) + n mod 10"
    by (rule mod_mult2_eq)
  then show ?case
    by (simp add: digits_value_snoc Suc.IH digit_chars_nth(2))
qed

lemma year_and_day_within:
  "year_and_day y d = (y', d') \<Longrightarrow> d' < DaysInYear y'"
proof (induction y d rule: year_and_day.induct)
  case (1 y d)
  show ?case
  proof (cases "d < DaysInYear y")
    case True
    with "1.prems" show ?thesis by (simp add: year_and_day.simps)
  next
    case False
    with "1.prems" have "year_and_day (Suc y) (d - DaysInYear y) = (y', d')"
      by (simp add: year_and_day.simps)
    with False show ?thesis by (rule "1.IH")
  qed
qed

lemma month_and_date_range:
  "d < sum_list lens \<Longrightarrow> month_and_date d lens = (m, dt) \<Longrightarrow>
   1 \<le> m \<and> m \<le> length lens \<and> 1 \<le> dt \<and> dt \<le> lens ! (m - 1)"
proof (induction lens arbitrary: d m dt)
  case Nil
  then show ?case by simp
next
  case (Cons len lens)
  show ?case
  proof (cases "d < len")
    case True
    with Cons.prems show ?thesis by auto
  next
    case False
    obtain m' dt' where rec: "month_and_date (d - len) lens = (m', dt')"
      by (cases "month_and_date (d - len) lens")
    with False Cons.prems have m: "m = m' + 1" and dt: "dt = dt'"
      by auto
    from False Cons.prems have "d - len < sum_list lens" by auto
    from Cons.IH [OF this rec] have
      "1 \<le> m'" "m' \<le> length lens" "1 \<le> dt'" "dt' \<le> lens ! (m' - 1)"
      by auto
    then show ?thesis
      unfolding m dt by (auto simp: nth_Cons')
  qed
qed

lemma sum_month_lengths: "sum_list (month_lengths y) = DaysInYear y"
  by (simp add: month_lengths_def DaysInYear_def)

lemma month_lengths_le_31: "i < 12 \<Longrightarrow> month_lengths y ! i \<le> 31"
proof -
  assume "i < 12"
  then have "i = 0 \<or> i = 1 \<or> i = 2 \<or> i = 3 \<or> i = 4 \<or> i = 5 \<or> i = 6 \<or> i = 7 \<or> i = 8 \<or>
      i = 9 \<or> i = 10 \<or> i = 11"
    by arith
  then show ?thesis by (auto simp: month_lengths_def)
qed

lemma DaysInYear_mod: "DaysInYear (y mod 1000000) = DaysInYear y"
proof -
  have "y mod 1000000 mod 4 = y mod 4" "y mod 1000000 mod 100 = y mod 100"
       "y mod 1000000 mod 400 = y mod 400"
    by (simp_all add: mod_mod_cancel)
  then show ?thesis by (simp add: DaysInYear_def)
qed

lemma month_lengths_mod: "month_lengths (y mod 1000000) = month_lengths y"
  by (simp add: month_lengths_def DaysInYear_mod)

lemma two_digit_field:
  assumes "lo \<le> n" and "n \<le> hi" and "n < 100"
  shows "field_ok (digits_fixed 2 n) lo hi" and "digits_value (digits_fixed 2 n) = n"
  using assms by (simp_all add: field_ok_def digits_fixed_all digits_fixed_value)

lemma iso_rest_build:
  assumes "length M = 2" "length D = 2" "length H = 2" "length Mi = 2" "length S = 2"
      and "length Ms = 3"
      and "field_ok M 1 12"
      and "field_ok D 1 (month_lengths y ! (digits_value M - 1))"
      and "field_ok H 0 23" "field_ok Mi 0 59" "field_ok S 0 59"
      and "list_all is_digit Ms"
  shows "iso_rest y (''-'' @ M @ ''-'' @ D @ ''T'' @ H @ '':'' @ Mi @ '':'' @ S @ ''.'' @ Ms @ ''Z'')"
proof -
  from assms(1) obtain m1 m2 where M: "M = [m1, m2]"
    by (auto simp: length_Suc_conv numeral_2_eq_2)
  from assms(2) obtain d1 d2 where D: "D = [d1, d2]"
    by (auto simp: length_Suc_conv numeral_2_eq_2)
  from assms(3) obtain h1 h2 where H: "H = [h1, h2]"
    by (auto simp: length_Suc_conv numeral_2_eq_2)
  from assms(4) obtain i1 i2 where Mi: "Mi = [i1, i2]"
    by (auto simp: length_Suc_conv numeral_2_eq_2)
  from assms(5) obtain s1 s2 where S: "S = [s1, s2]"
    by (auto simp: length_Suc_conv numeral_2_eq_2)
  from assms(6) obtain f1 f2 f3 where Ms: "Ms = [f1, f2, f3]"
    by (auto simp: length_Suc_conv numeral_3_eq_3)
  show ?thesis
    using assms(7-12) unfolding M D H Mi S Ms
    by (simp add: iso_rest_def)
qed

lemma toISOString_is_iso8601: "is_iso8601 (toISOString t)"
proof -
  obtain y d where yd: "year_and_day 1970 (t div msPerDay) = (y, d)"
    by (cases "year_and_day 1970 (t div msPerDay)")
  obtain mo dt where md: "month_and_date d (month_lengths y) = (mo, dt)"
    by (cases "month_and_date d (month_lengths y)")
  let ?rest = "''-'' @ digits_fixed 2 mo @ ''-'' @ digits_fixed 2 dt @
         ''T'' @ digits_fixed 2 ((t div 3600000) mod 24) @ '':'' @
         digits_fixed 2 ((t div 60000) mod 60) @ '':'' @ digits_fixed 2 ((t div 1000) mod 60) @
         ''.'' @ digits_fixed 3 (t mod 1000) @ ''Z''"
  have str: "toISOString t =
      (if y \<le> 9999 then digits_fixed 4 y else CHR ''+'' # digits_fixed 6 y) @ ?rest"
    by (simp add: toISOString_def yd md Let_def)
  from year_and_day_within [OF yd] have "d < sum_list (month_lengths y)"
    by (simp add: sum_month_lengths)
  from month_and_date_range [OF this md] have
    mo: "1 \<le> mo" "mo \<le> 12" and dt: "1 \<le> dt" "dt \<le> month_lengths y ! (mo - 1)"
    by (simp_all add: month_lengths_def)
  from mo have "mo - 1 < 12" by simp
  from month_lengths_le_31 [OF this, of y] dt(2) have dt100: "dt < 100" by linarith
  have Mv: "digits_value (digits_fixed 2 mo) = mo"
    using mo by (simp add: digits_fixed_value)
  have rest: "iso_rest y' ?rest" if "month_lengths y' = month_lengths y" for y'
  proof (rule iso_rest_build)
    show "field_ok (digits_fixed 2 mo) 1 12"
      using mo by (intro two_digit_field) simp_all
    show "field_ok (digits_fixed 2 dt) 1
            (month_lengths y' ! (digits_value (digits_fixed 2 mo) - 1))"
      unfolding Mv that using dt dt100 by (intro two_digit_field) simp_all
    show "field_ok (digits_fixed 2 ((t div 3600000) mod 24)) 0 23"
      by (intro two_digit_field) simp_all
    show "field_ok (digits_fixed 2 ((t div 60000) mod 60)) 0 59"
      by (intro two_digit_field) simp_all
    show "field_ok (digits_fixed 2 ((t div 1000) mod 60)) 0 59"
      by (intro two_digit_field) simp_all
    show "list_all is_digit (digits_fixed 3 (t mod 1000))"
      by (rule digits_fixed_all)
  qed (simp_all add: digits_fixed_length)
  show ?thesis
  proof (cases "y \<le> 9999")
    case True
    obtain a b c e where Y: "digits_fixed 4 y = [a, b, c, e]"
      by (simp add: digits_fixed_4)
    have "is_digit a"
      using digits_fixed_all [of 4 y] unfolding Y by simp
    then have sign: "a \<noteq> CHR ''+''" "a \<noteq> CHR ''-''"
      using is_digit_not_sign by auto
    have val: "digits_value [a, b, c, e] = y"
      using digits_fixed_value [of 4 y] True unfolding Y by simp
    have all: "list_all is_digit [a, b, c, e]"
      using digits_fixed_all [of 4 y] unfolding Y .
    show ?thesis
      unfolding str using True sign all rest [of y]
      by (simp add: Y is_iso8601_def val)
  next
    case False
    obtain a b c e f g where Y: "digits_fixed 6 y = [a, b, c, e, f, g]"
      by (simp add: digits_fixed_6)
    have val: "digits_value [a, b, c, e, f, g] = y mod 1000000"
      using digits_fixed_value [of 6 y] unfolding Y by simp
    have all: "list_all is_digit [a, b, c, e, f, g]"
      using digits_fixed_all [of 6 y] unfolding Y .
    show ?thesis
      unfolding str using False all rest [of "y mod 1000000"]
      by (simp add: Y is_iso8601_def val month_lengths_mod)
  qed
qed

lemma toISOString_sample:
  "toISOString 1751740200000 = ''2025-07-05T18:30:00.000Z''"
  by (simp add: toISOString_def msPerDay_def year_and_day.simps DaysInYear_def
                month_lengths_def digit_chars_def digits_fixed_2 digits_fixed_3 digits_fixed_4)

lemma toISOString_sample_leap_day:
  "toISOString 1709251199999 = ''2024-02-29T23:59:59.999Z''"
  by (simp add: toISOString_def msPerDay_def year_and_day.simps DaysInYear_def
                month_lengths_def digit_chars_def digits_fixed_2 digits_fixed_3 digits_fixed_4)

lemma is_iso8601_rejects:
  "\<not> is_iso8601 ''not a date''" and "\<not> is_iso8601 ''2025-02-30T18:30:00.000Z''"
  and "\<not> is_iso8601 ''2025-07-05T18:30:00.000''" and "\<not> is_iso8601 ''2025-07-05 18:30:00.000Z''"
  by (simp_all add: is_iso8601_def iso_rest_def field_ok_def is_digit_def digits_value_def
                    digit_value_def digit_chars_def month_lengths_def DaysInYear_def)


section \<open>Properties of the metrics module\<close>

lemma on_finish_total [simp]: "totalRequests (on_finish req s c t now st) = totalRequests st"
  by (simp add: on_finish_def Let_def)

lemma on_finish_counters:
  "successfulResponses (on_finish req s c t now st) + failedResponses (on_finish req s c t now st)
     = successfulResponses st + failedResponses st + 1"
  by (simp add: on_finish_def Let_def)

lemma on_finish_log:
  "requestLog (on_finish req s c t now st) = push_log (make_log_entry req c (int t - int s) now) (requestLog st)"
  by (simp add: on_finish_def Let_def)

lemma on_finish_custom [simp]: "customCounters (on_finish req s c t now st) = customCounters st"
  by (simp add: on_finish_def Let_def)

lemma fire_total:
  "totalRequests (foldl (\<lambda>st (r, req, startTime). on_finish req startTime c t now st) st ls)
     = totalRequests st"
  by (induction ls arbitrary: st) (auto)

lemma fire_counters:
  "successfulResponses (foldl (\<lambda>st (r, req, startTime). on_finish req startTime c t now st) st ls) +
   failedResponses (foldl (\<lambda>st (r, req, startTime). on_finish req startTime c t now st) st ls)
     = successfulResponses st + failedResponses st + length ls"
  by (induction ls arbitrary: st) (auto simp: on_finish_counters)

lemma fire_log:
  "requestLog (foldl (\<lambda>st (r, req, startTime). on_finish req startTime c t now st) st ls)
     = foldl (\<lambda>log e. push_log e log) (requestLog st)
         (map (\<lambda>(r, req, startTime). make_log_entry req c (int t - int startTime) now) ls)"
  by (induction ls arbitrary: st) (auto simp: on_finish_log)

lemma step_balanced: "balanced w \<Longrightarrow> balanced (step w ev)"
proof (cases ev)
  case (Incoming res req dt)
  assume "balanced w" then show ?thesis using Incoming
    by (simp add: balanced_def metricsMiddleware_def Let_def)
next
  case (Finish res c dt now)
  have "length (filter (\<lambda>l. fst l = res) (listeners w)) + length (filter (\<lambda>l. fst l \<noteq> res) (listeners w))
      = length (listeners w)"
    using sum_length_filter_compl [of "\<lambda>l. fst l = res" "listeners w"] by simp
  moreover assume "balanced w"
  ultimately show ?thesis using Finish
    by (simp add: balanced_def emit_finish_def Let_def fire_total fire_counters)
qed

lemma steps_balanced: "balanced w \<Longrightarrow> balanced (foldl step w evs)"
  by (induction evs arbitrary: w) (auto simp: step_balanced)

lemma step_total:
  "totalRequests (metricsStore (step w ev)) = totalRequests (metricsStore w) + (if is_incoming ev then 1 else 0)"
  by (cases ev) (simp_all add: metricsMiddleware_def emit_finish_def Let_def fire_total)

lemma steps_total:
  "totalRequests (metricsStore (foldl step w evs)) = totalRequests (metricsStore w) + length (filter is_incoming evs)"
  by (induction evs arbitrary: w) (auto simp: step_total)

lemma step_log:
  "requestLog (metricsStore (step w ev)) = foldl (\<lambda>log e. push_log e log) (requestLog (metricsStore w)) (created_by w ev)"
  by (cases ev) (simp_all add: metricsMiddleware_def emit_finish_def Let_def fire_log)

lemma steps_log:
  "requestLog (metricsStore (foldl step w evs)) = foldl (\<lambda>log e. push_log e log) (requestLog (metricsStore w)) (created w evs)"
  by (induction evs arbitrary: w) (auto simp: step_log)

lemma push_log_drop:
  "length log \<le> MAX_LOG_ENTRIES \<Longrightarrow>
   push_log e log = drop (length log + 1 - MAX_LOG_ENTRIES) (log @ [e])"
  by (cases log) (auto simp: push_log_def Let_def MAX_LOG_ENTRIES_def drop_Cons')

lemma push_log_length:
  "length log \<le> MAX_LOG_ENTRIES \<Longrightarrow> length (push_log e log) \<le> MAX_LOG_ENTRIES"
  by (auto simp: push_log_def Let_def MAX_LOG_ENTRIES_def)

lemma push_all_drop:
  "length log \<le> MAX_LOG_ENTRIES \<Longrightarrow>
   foldl (\<lambda>log e. push_log e log) log es = drop (length log + length es - MAX_LOG_ENTRIES) (log @ es)"
proof (induction es arbitrary: log)
  case Nil then show ?case by simp
next
  case (Cons e es)
  show ?case
  proof (cases "length log < MAX_LOG_ENTRIES")
    case True
    then have p: "push_log e log = log @ [e]"
      by (simp add: push_log_def Let_def)
    have "length (log @ [e]) \<le> MAX_LOG_ENTRIES" using True by simp
    from Cons.IH [OF this] show ?thesis by (simp add: p)
  next
    case False
    with Cons.prems have full: "length log = MAX_LOG_ENTRIES" by simp
    then obtain x xs where log: "log = x # xs"
      by (cases log) (simp_all add: MAX_LOG_ENTRIES_def)
    have p: "push_log e log = xs @ [e]"
      using full by (simp add: push_log_def Let_def log)
    have len': "length (xs @ [e]) = MAX_LOG_ENTRIES" using full log by simp
    then have "length (xs @ [e]) \<le> MAX_LOG_ENTRIES" by simp
    from Cons.IH [OF this]
    have "foldl (\<lambda>log e. push_log e log) (xs @ [e]) es =
          drop (MAX_LOG_ENTRIES + length es - MAX_LOG_ENTRIES) ((xs @ [e]) @ es)"
      unfolding len' .
    then have lhs: "foldl (\<lambda>log e. push_log e log) log (e # es) = drop (length es) (xs @ e # es)"
      by (simp add: p)
    have "length log + length (e # es) - MAX_LOG_ENTRIES = Suc (length es)"
      unfolding full by simp
    then have rhs: "drop (length log + length (e # es) - MAX_LOG_ENTRIES) (log @ e # es)
          = drop (length es) (xs @ e # es)"
      by (simp add: log)
    show ?thesis unfolding lhs rhs ..
  qed
qed

lemma step_created_count:
  "length (created_by w ev) + length (listeners (step w ev)) = length (listeners w) + (if is_incoming ev then 1 else 0)"
proof (cases ev)
  case (Incoming res req dt) then show ?thesis by (simp add: metricsMiddleware_def Let_def)
next
  case (Finish res c dt now)
  then show ?thesis 
    using sum_length_filter_compl [of "\<lambda>l. fst l = res" "listeners w"] 
    by (simp add: emit_finish_def Let_def)
qed

lemma steps_created_count:
  "length (created w evs) + length (listeners (foldl step w evs)) = length (listeners w) + length (filter is_incoming evs)"
proof (induction evs arbitrary: w)
  case Nil then show ?case by simp
next
  case (Cons ev evs)
  show ?case using Cons.IH [of "step w ev"] step_created_count [of w ev]
    by (cases "is_incoming ev") simp_all
qed

lemma run_created_log:
  "requestLog (metricsStore (run evs)) =
     drop (length (created initial_process evs) - MAX_LOG_ENTRIES) (created initial_process evs)"
proof -
  have "length (requestLog (metricsStore initial_process)) \<le> MAX_LOG_ENTRIES"
    by (simp add: initial_process_def initial_store_def)
  from push_all_drop [OF this, of "created initial_process evs"]
  show ?thesis
    by (simp add: run_def steps_log initial_process_def initial_store_def)
qed

text \<open>
  C3. Once every registered completion callback has run (no listener is left), the
  requests counted by \<open>totalRequests\<close> are exactly the \<open>N\<close> requests that came in, and
  \<open>successfulResponses + failedResponses\<close> is the same \<open>N\<close>. A completion with a status
  code in \<open>[200,400)\<close> adds one to \<open>successfulResponses\<close> and leaves \<open>failedResponses\<close>
  alone; any other status code does the opposite. The counters are natural numbers
  here; the JavaScript numbers they stand for are exact up to \<open>2^53\<close>.
\<close>

theorem counters_balance_after_completion:
  assumes "listeners (run evs) = []"
  shows "successfulResponses (metricsStore (run evs)) + failedResponses (metricsStore (run evs))
           = length (filter is_incoming evs) \<and>
         totalRequests (metricsStore (run evs)) = length (filter is_incoming evs) \<and>
         successfulResponses (on_finish req s c t now st) =
           successfulResponses st + (if 200 \<le> c \<and> c < 400 then 1 else 0) \<and>
         failedResponses (on_finish req s c t now st) =
           failedResponses st + (if 200 \<le> c \<and> c < 400 then 0 else 1)"
proof -
  have "balanced initial_process"
    by (simp add: balanced_def initial_process_def initial_store_def)
  then have "balanced (run evs)"
    unfolding run_def by (rule steps_balanced)
  then have bal: "totalRequests (metricsStore (run evs)) =
      successfulResponses (metricsStore (run evs)) + failedResponses (metricsStore (run evs))"
    using assms by (simp add: balanced_def)
  have tot: "totalRequests (metricsStore (run evs)) = length (filter is_incoming evs)"
    by (simp add: run_def steps_total initial_process_def initial_store_def)
  show ?thesis using bal tot by (simp add: on_finish_def Let_def)
qed

theorem counters_balance_after_completion_witness:
  "listeners (run [Incoming 0 \<lparr>req_method = ''GET'', originalUrl = ''/a''\<rparr> 0,
                   Incoming 1 \<lparr>req_method = ''POST'', originalUrl = ''/b''\<rparr> 10,
                   Finish 1 404 500 1751740200000,
                   Finish 0 200 7 1751740200001]) = [] \<and>
   successfulResponses (metricsStore (run [Incoming 0 \<lparr>req_method = ''GET'', originalUrl = ''/a''\<rparr> 0,
                   Incoming 1 \<lparr>req_method = ''POST'', originalUrl = ''/b''\<rparr> 10,
                   Finish 1 404 500 1751740200000,
                   Finish 0 200 7 1751740200001])) = 1 \<and>
   failedResponses (metricsStore (run [Incoming 0 \<lparr>req_method = ''GET'', originalUrl = ''/a''\<rparr> 0,
                   Incoming 1 \<lparr>req_method = ''POST'', originalUrl = ''/b''\<rparr> 10,
                   Finish 1 404 500 1751740200000,
                   Finish 0 200 7 1751740200001])) = 1 \<and>
   totalRequests (metricsStore (run [Incoming 0 \<lparr>req_method = ''GET'', originalUrl = ''/a''\<rparr> 0,
                   Incoming 1 \<lparr>req_method = ''POST'', originalUrl = ''/b''\<rparr> 10,
                   Finish 1 404 500 1751740200000,
                   Finish 0 200 7 1751740200001])) = 2"
proof -
  let ?evs = "[Incoming 0 \<lparr>req_method = ''GET'', originalUrl = ''/a''\<rparr> 0,
               Incoming 1 \<lparr>req_method = ''POST'', originalUrl = ''/b''\<rparr> 10,
               Finish 1 404 500 1751740200000,
               Finish 0 200 7 1751740200001]"
  have fin: "listeners (run ?evs) = []"
    by (simp add: run_def initial_process_def initial_store_def metricsMiddleware_def
                  emit_finish_def Let_def)
  have succ: "successfulResponses (metricsStore (run ?evs)) = 1"
    by (simp add: run_def initial_process_def initial_store_def metricsMiddleware_def
                  emit_finish_def on_finish_def Let_def)
  show ?thesis
    using fin succ counters_balance_after_completion [OF fin] by simp
qed

text \<open>
  C4. Whatever the trace, the request log never holds more than 1000 entries, and it
  holds the last 1000 of the entries created so far, in the order of their creation.
  When 1001 entries have been created, the log is all of them but the first. A single
  \<open>push\<close>-then-\<open>shift\<close> step keeps the bound.
\<close>

theorem request_log_bounded_fifo:
  "length (requestLog (metricsStore (run evs))) \<le> 1000 \<and>
   requestLog (metricsStore (run evs)) =
     drop (length (created initial_process evs) - 1000) (created initial_process evs) \<and>
   (length (created initial_process evs) = 1001 \<longrightarrow>
      requestLog (metricsStore (run evs)) = tl (created initial_process evs) \<and>
      length (requestLog (metricsStore (run evs))) = 1000) \<and>
   (length log \<le> 1000 \<longrightarrow> length (push_log e log) \<le> 1000)"
proof -
  have eq: "requestLog (metricsStore (run evs)) =
      drop (length (created initial_process evs) - 1000) (created initial_process evs)"
    using run_created_log [of evs] by (simp add: MAX_LOG_ENTRIES_def)
  have len: "length (requestLog (metricsStore (run evs))) \<le> 1000"
    unfolding eq by simp
  have at1001: "requestLog (metricsStore (run evs)) = tl (created initial_process evs) \<and>
      length (requestLog (metricsStore (run evs))) = 1000"
    if "length (created initial_process evs) = 1001"
    unfolding eq using that by (simp add: drop_Suc)
  have push: "length log \<le> 1000 \<longrightarrow> length (push_log e log) \<le> 1000"
    using push_log_length [of log e] by (simp add: MAX_LOG_ENTRIES_def)
  show ?thesis using eq len at1001 push by blast
qed

lemma created_append:
  "created w (xs @ ys) = created w xs @ created (foldl step w xs) ys"
  by (induction xs arbitrary: w) simp_all

lemma sequential_created:
  "listeners w = [] \<Longrightarrow>
   created w (sequential_requests k n) =
     map (\<lambda>i. make_log_entry \<lparr>req_method = ''GET'', originalUrl = ''/r/'' @ nat_to_string i\<rparr>
                 200 3000000 ''2025-07-05T18:30:00.000Z'') [k..<k + n]"
proof (induction n arbitrary: k w)
  case 0 then show ?case by (simp add: sequential_requests_def)
next
  case (Suc n)
  let ?f = "\<lambda>i. make_log_entry \<lparr>req_method = ''GET'', originalUrl = ''/r/'' @ nat_to_string i\<rparr>
                 200 3000000 ''2025-07-05T18:30:00.000Z''"
  let ?r = "\<lparr>req_method = ''GET'', originalUrl = ''/r/'' @ nat_to_string k\<rparr>"
  let ?pair = "[Incoming k ?r 0, Finish k 200 3000000 1751740200000]"
  have upt: "[k..<k + Suc n] = k # [Suc k..<Suc k + n]"
    by (simp add: upt_conv_Cons)
  have split: "sequential_requests k (Suc n) = ?pair @ sequential_requests (Suc k) n"
    unfolding sequential_requests_def upt by simp
  have l': "listeners (foldl step w ?pair) = []"
    using Suc.prems by (simp add: metricsMiddleware_def emit_finish_def Let_def)
  have pair: "created w ?pair = [?f k]"
    using Suc.prems by (simp add: metricsMiddleware_def Let_def toISOString_sample)
  have "created w (sequential_requests k (Suc n)) = ?f k # map ?f [Suc k..<Suc k + n]"
    unfolding split created_append pair Suc.IH [OF l'] by simp
  then show ?case unfolding upt by simp
qed

theorem request_log_bounded_fifo_witness:
  "requestLog (metricsStore (run (sequential_requests 0 1001))) =
     map (\<lambda>i. make_log_entry \<lparr>req_method = ''GET'', originalUrl = ''/r/'' @ nat_to_string i\<rparr>
                 200 3000000 ''2025-07-05T18:30:00.000Z'') [1..<1001] \<and>
   length (requestLog (metricsStore (run (sequential_requests 0 1001)))) = 1000"
proof -
  have c: "created initial_process (sequential_requests 0 1001) =
     map (\<lambda>i. make_log_entry \<lparr>req_method = ''GET'', originalUrl = ''/r/'' @ nat_to_string i\<rparr>
                 200 3000000 ''2025-07-05T18:30:00.000Z'') [0..<1001]"
    using sequential_created [of initial_process 0 1001] by (simp add: initial_process_def)
  have n: "length (created initial_process (sequential_requests 0 1001)) = 1001"
    unfolding c by simp
  have t: "tl [0..<1001::nat] = [1..<1001]"
    by (simp add: tl_upt)
  show ?thesis
    using request_log_bounded_fifo [of "sequential_requests 0 1001"] n
    unfolding c by (simp add: map_tl t drop_map)
qed


lemma step_clock_ok: "clock_ok w \<Longrightarrow> clock_ok (step w ev)"
  by (cases ev)
     (auto simp: clock_ok_def metricsMiddleware_def emit_finish_def Let_def list_all_iff)

lemma created_by_shape:
  assumes "clock_ok w" and "x \<in> set (created_by w ev)"
  shows "\<exists>m p c d ts. x = JObj [(''method'', JStr m), (''path'', JStr p),
                                (''status'', JNum (Fin c)), (''durationMs'', JNum (Fin d)),
                                (''timestamp'', JStr ts)] \<and> 0 \<le> d \<and> is_iso8601 ts"
proof (cases ev)
  case (Incoming res req dt)
  with assms show ?thesis by simp
next
  case (Finish res c dt t)
  with assms(2) obtain r req startTime where
    l: "(r, req, startTime) \<in> set (listeners w)" and
    x: "x = make_log_entry req c (int (hrtime w + dt) - int startTime) (toISOString t)"
    by auto
  from assms(1) l have "startTime \<le> hrtime w"
    by (auto simp: clock_ok_def list_all_iff)
  then have "0 \<le> bigint_div (int (hrtime w + dt) - int startTime) 1000000"
    by (simp add: bigint_div_def)
  then show ?thesis
    unfolding x make_log_entry_def using toISOString_is_iso8601 [of t] by blast
qed

lemma created_shape:
  assumes "clock_ok w" and "x \<in> set (created w evs)"
  shows "\<exists>m p c d ts. x = JObj [(''method'', JStr m), (''path'', JStr p),
                                (''status'', JNum (Fin c)), (''durationMs'', JNum (Fin d)),
                                (''timestamp'', JStr ts)] \<and> 0 \<le> d \<and> is_iso8601 ts"
  using assms
proof (induction evs arbitrary: w)
  case Nil then show ?case by simp
next
  case (Cons ev evs)
  from Cons.prems(2) have "x \<in> set (created_by w ev) \<or> x \<in> set (created (step w ev) evs)"
    by simp
  then show ?case
    using created_by_shape [OF Cons.prems(1)] Cons.IH [OF step_clock_ok [OF Cons.prems(1)]]
    by blast
qed

lemma request_then_finish:
  assumes "res \<notin> fst ` set (listeners w)"
  shows "created w [Incoming res req dt1, Finish res c dt2 t] =
           [make_log_entry req c (int dt2) (toISOString t)]"
proof -
  have "filter (\<lambda>l. fst l = res) (listeners w) = []"
    using assms by (auto simp: filter_empty_conv)
  then show ?thesis by (simp add: metricsMiddleware_def Let_def)
qed

text \<open>
  C9 (as amended). Every log entry is created by the finish event of a response, none
  when a request comes in, and the finish event pushes the entries it creates onto
  \<open>requestLog\<close>; once every callback has run, as many entries have been created as
  requests came in, and \<open>requestLog\<close> holds them (the last 1000 of them). Each entry is the
  object \<open>{method, path, status, durationMs, timestamp}\<close>: the status code is stored
  under the key \<open>status\<close>, \<open>durationMs\<close> is a non-negative number and \<open>timestamp\<close> is an
  ISO 8601 string. For a request that is alone on its response object the entry holds
  the request's method and URL, the response's status code, the time between the two
  events on the monotonic clock and the wall-clock time of the finish event.
\<close>

theorem one_log_entry_per_completed_request:
  "(\<forall>x \<in> set (created initial_process evs).
      \<exists>m p c d ts. x = JObj [(''method'', JStr m), (''path'', JStr p),
                             (''status'', JNum (Fin c)), (''durationMs'', JNum (Fin d)),
                             (''timestamp'', JStr ts)] \<and> 0 \<le> d \<and> is_iso8601 ts) \<and>
   (listeners (run evs) = [] \<longrightarrow>
      length (created initial_process evs) = length (filter is_incoming evs)) \<and>
   requestLog (metricsStore (run evs)) =
     drop (length (created initial_process evs) - 1000) (created initial_process evs) \<and>
   created_by w (Incoming res req dt) = [] \<and>
   requestLog (metricsStore (step w (Incoming res req dt))) = requestLog (metricsStore w) \<and>
   requestLog (metricsStore (step w (Finish res c dt t))) =
     foldl (\<lambda>log e. push_log e log) (requestLog (metricsStore w))
           (created_by w (Finish res c dt t)) \<and>
   (res \<notin> fst ` set (listeners w) \<longrightarrow>
      created w [Incoming res req dt1, Finish res c dt2 t] =
        [JObj [(''method'', JStr (req_method req)), (''path'', JStr (originalUrl req)),
               (''status'', JNum (Fin c)),
               (''durationMs'', JNum (Fin (int (dt2 div 1000000)))),
               (''timestamp'', JStr (toISOString t))]] \<and>
      requestLog (metricsStore (foldl step w [Incoming res req dt1, Finish res c dt2 t])) =
        push_log
          (JObj [(''method'', JStr (req_method req)), (''path'', JStr (originalUrl req)),
                 (''status'', JNum (Fin c)),
                 (''durationMs'', JNum (Fin (int (dt2 div 1000000)))),
                 (''timestamp'', JStr (toISOString t))])
          (requestLog (metricsStore w)))"
proof -
  have clock: "clock_ok initial_process"
    by (simp add: clock_ok_def initial_process_def)
  have shape: "\<forall>x \<in> set (created initial_process evs).
      \<exists>m p c d ts. x = JObj [(''method'', JStr m), (''path'', JStr p),
                             (''status'', JNum (Fin c)), (''durationMs'', JNum (Fin d)),
                             (''timestamp'', JStr ts)] \<and> 0 \<le> d \<and> is_iso8601 ts"
    using created_shape [OF clock, of _ evs] by blast
  have count: "listeners (run evs) = [] \<longrightarrow>
      length (created initial_process evs) = length (filter is_incoming evs)"
    using steps_created_count [of initial_process evs]
    by (auto simp: run_def initial_process_def)
  have log: "requestLog (metricsStore (run evs)) =
      drop (length (created initial_process evs) - 1000) (created initial_process evs)"
    using run_created_log [of evs] by (simp add: MAX_LOG_ENTRIES_def)
  have none: "created_by w (Incoming res req dt) = []"
    by simp
  have unchanged:
    "requestLog (metricsStore (step w (Incoming res req dt))) = requestLog (metricsStore w)"
    by (simp add: metricsMiddleware_def Let_def)
  have pushed: "requestLog (metricsStore (step w (Finish res c dt t))) =
      foldl (\<lambda>log e. push_log e log) (requestLog (metricsStore w))
            (created_by w (Finish res c dt t))"
    by (rule step_log)
  have ms: "bigint_div (int dt2) 1000000 = int (dt2 div 1000000)"
    by (simp add: bigint_div_def zdiv_int)
  let ?E = "JObj [(''method'', JStr (req_method req)), (''path'', JStr (originalUrl req)),
                  (''status'', JNum (Fin c)),
                  (''durationMs'', JNum (Fin (int (dt2 div 1000000)))),
                  (''timestamp'', JStr (toISOString t))]"
  have entry: "make_log_entry req c (int dt2) (toISOString t) = ?E"
    by (simp add: make_log_entry_def ms)
  have alone: "res \<notin> fst ` set (listeners w) \<longrightarrow>
      created w [Incoming res req dt1, Finish res c dt2 t] = [?E] \<and>
      requestLog (metricsStore (foldl step w [Incoming res req dt1, Finish res c dt2 t])) =
        push_log ?E (requestLog (metricsStore w))"
  proof
    assume fresh: "res \<notin> fst ` set (listeners w)"
    have c: "created w [Incoming res req dt1, Finish res c dt2 t] = [?E]"
      using request_then_finish [OF fresh, of req dt1 c dt2 t] unfolding entry .
    have no_other: "filter (\<lambda>l. fst l = res) (listeners w) = []"
      using fresh by (auto simp: filter_empty_conv)
    have "requestLog (metricsStore (foldl step w [Incoming res req dt1, Finish res c dt2 t])) =
        push_log (make_log_entry req c (int dt2) (toISOString t)) (requestLog (metricsStore w))"
      using no_other by (simp add: metricsMiddleware_def emit_finish_def on_finish_def Let_def)
    then have "requestLog (metricsStore (foldl step w [Incoming res req dt1, Finish res c dt2 t])) =
        push_log ?E (requestLog (metricsStore w))"
      unfolding entry .
    with c show "created w [Incoming res req dt1, Finish res c dt2 t] = [?E] \<and>
      requestLog (metricsStore (foldl step w [Incoming res req dt1, Finish res c dt2 t])) =
        push_log ?E (requestLog (metricsStore w))"
      by (rule conjI)
  qed
  from shape count log none unchanged pushed alone show ?thesis
    by (intro conjI)
qed

theorem one_log_entry_per_completed_request_witness:
  "created initial_process
     [Incoming 0 \<lparr>req_method = ''POST'', originalUrl = ''/api/interactuar''\<rparr> 0,
      Finish 0 200 2500000 1751740200000] =
   [JObj [(''method'', JStr ''POST''), (''path'', JStr ''/api/interactuar''),
          (''status'', JNum (Fin 200)), (''durationMs'', JNum (Fin 2)),
          (''timestamp'', JStr ''2025-07-05T18:30:00.000Z'')]] \<and>
   requestLog (metricsStore (run
     [Incoming 0 \<lparr>req_method = ''POST'', originalUrl = ''/api/interactuar''\<rparr> 0,
      Finish 0 200 2500000 1751740200000])) =
   [JObj [(''method'', JStr ''POST''), (''path'', JStr ''/api/interactuar''),
          (''status'', JNum (Fin 200)), (''durationMs'', JNum (Fin 2)),
          (''timestamp'', JStr ''2025-07-05T18:30:00.000Z'')]] \<and>
   listeners (run [Incoming 0 \<lparr>req_method = ''POST'', originalUrl = ''/api/interactuar''\<rparr> 0,
                   Finish 0 200 2500000 1751740200000]) = [] \<and>
   length (created initial_process
     [Incoming 0 \<lparr>req_method = ''POST'', originalUrl = ''/api/interactuar''\<rparr> 0,
      Finish 0 200 2500000 1751740200000]) = 1 \<and>
   is_iso8601 ''2025-07-05T18:30:00.000Z''"
proof -
  let ?evs = "[Incoming 0 \<lparr>req_method = ''POST'', originalUrl = ''/api/interactuar''\<rparr> 0,
               Finish 0 200 2500000 1751740200000]"
  have fresh: "0 \<notin> fst ` set (listeners initial_process)"
    by (simp add: initial_process_def)
  have fin: "listeners (run ?evs) = []"
    by (simp add: run_def initial_process_def initial_store_def metricsMiddleware_def
                  emit_finish_def Let_def)
  have empty: "requestLog (metricsStore initial_process) = []"
    by (simp add: initial_process_def initial_store_def)
  have iso: "is_iso8601 ''2025-07-05T18:30:00.000Z''"
    using toISOString_is_iso8601 [of 1751740200000] by (simp add: toISOString_sample)
  show ?thesis
    using fresh fin iso
      one_log_entry_per_completed_request [of ?evs initial_process 0
        "\<lparr>req_method = ''POST'', originalUrl = ''/api/interactuar''\<rparr>" 0 200
        1751740200000 0 2500000]
    by (simp add: toISOString_sample run_def empty push_log_def MAX_LOG_ENTRIES_def)
qed

text \<open>
  C9 as stated fails on the name of one key: the entry has no \<open>statusCode\<close> field, the
  status code is under \<open>status\<close>.
\<close>

theorem log_entry_has_no_statusCode_counterexample:
  "requestLog (metricsStore (run
     [Incoming 0 \<lparr>req_method = ''POST'', originalUrl = ''/api/interactuar''\<rparr> 0,
      Finish 0 200 2500000 1751740200000])) =
   [JObj [(''method'', JStr ''POST''), (''path'', JStr ''/api/interactuar''),
          (''status'', JNum (Fin 200)), (''durationMs'', JNum (Fin 2)),
          (''timestamp'', JStr ''2025-07-05T18:30:00.000Z'')]] \<and>
   keys (JObj [(''method'', JStr ''POST''), (''path'', JStr ''/api/interactuar''),
          (''status'', JNum (Fin 200)), (''durationMs'', JNum (Fin 2)),
          (''timestamp'', JStr ''2025-07-05T18:30:00.000Z'')]) \<noteq>
     [''method'', ''path'', ''statusCode'', ''durationMs'', ''timestamp''] \<and>
   get_prop (JObj [(''method'', JStr ''POST''), (''path'', JStr ''/api/interactuar''),
          (''status'', JNum (Fin 200)), (''durationMs'', JNum (Fin 2)),
          (''timestamp'', JStr ''2025-07-05T18:30:00.000Z'')]) ''statusCode'' = JUndefined"
  by (simp add: run_def initial_process_def initial_store_def metricsMiddleware_def
                emit_finish_def on_finish_def make_log_entry_def push_log_def
                MAX_LOG_ENTRIES_def bigint_div_def toISOString_sample Let_def)

section \<open>Properties of getLastRequests\<close>

lemma parseInt_no_digit:
  assumes "\<forall>c \<in> set s. \<not> is_digit c"
  shows "parseInt np (JStr s) = None"
proof -
  let ?s0 = "dropWhile isWhiteSpace s"
  let ?s1 = "(case ?s0 of c # cs \<Rightarrow> if c = CHR ''-'' \<or> c = CHR ''+'' then cs else ?s0
              | [] \<Rightarrow> ?s0)"
  have "set ?s0 \<subseteq> set s"
    by (auto dest: set_dropWhileD)
  moreover have "set (case xs of c # cs \<Rightarrow> if c = CHR ''-'' \<or> c = CHR ''+'' then cs else xs
                       | [] \<Rightarrow> xs) \<subseteq> set xs" for xs :: string
    by (cases xs) auto
  then have "set ?s1 \<subseteq> set ?s0" .
  ultimately have none: "\<forall>c \<in> set ?s1. \<not> is_digit c"
    using assms by blast
  have "(\<forall>c \<in> set xs. \<not> is_digit c) \<Longrightarrow> takeWhile is_digit xs = []" for xs
    by (cases xs) auto
  from this [OF none] have "takeWhile is_digit ?s1 = []" .
  then show ?thesis
    by (simp add: parseInt_def Let_def)
qed

text \<open>
  C5 (as amended). \<open>getLastRequests("abc")\<close> returns what \<open>getLastRequests(10)\<close> returns,
  and so does every limit from which \<open>parseInt(limit, 10)\<close> reads no number (a string
  without a decimal digit is one) or reads 0: these fall back to the default of 10.
  \<open>getLastRequests(-5)\<close> returns what \<open>getLastRequests(1)\<close> returns, and so does every
  limit that \<open>parseInt(limit, 10)\<close> reads as a negative integer: \<open>||\<close> keeps it and
  \<open>Math.max\<close> raises it to 1. With a limit of 10 or 1 the result is the last 10 entries,
  or the last one, most recent first.
\<close>

theorem invalid_limit_fallbacks:
  "(parseInt np v = None \<or> parseInt np v = Some 0 \<longrightarrow>
      getLastRequests np v st = getLastRequests np (JNum (Fin 10)) st) \<and>
   (\<forall>n. parseInt np v = Some n \<and> n < 0 \<longrightarrow>
      getLastRequests np v st = getLastRequests np (JNum (Fin 1)) st) \<and>
   ((\<forall>c \<in> set s. \<not> is_digit c) \<longrightarrow> parseInt np (JStr s) = None) \<and>
   parseInt np (JStr ''abc'') = None \<and>
   parseInt np (JNum (Fin (- 5))) = Some (- 5) \<and>
   getLastRequests np (JStr ''abc'') st = getLastRequests np (JNum (Fin 10)) st \<and>
   getLastRequests np (JNum (Fin (- 5))) st = getLastRequests np (JNum (Fin 1)) st \<and>
   getLastRequests np (JNum (Fin 10)) st =
     rev (drop (length (requestLog st) - 10) (requestLog st)) \<and>
   getLastRequests np (JNum (Fin 1)) st =
     rev (drop (length (requestLog st) - 1) (requestLog st))"
proof -
  have p_abc: "parseInt np (JStr ''abc'') = None"
    by (simp add: parseInt_def isWhiteSpace_def is_digit_def digit_chars_def)
  have p_m5: "parseInt np (JNum (Fin (- 5))) = Some (- 5)"
    by (simp add: parseInt_def isWhiteSpace_def is_digit_def digit_chars_def digit_value_def
                  digits_value_def nat_to_string.simps)
  have p_10: "parseInt np (JNum (Fin 10)) = Some 10"
    by (simp add: parseInt_def isWhiteSpace_def is_digit_def digit_chars_def digit_value_def
                  digits_value_def nat_to_string.simps)
  have p_1: "parseInt np (JNum (Fin 1)) = Some 1"
    by (simp add: parseInt_def isWhiteSpace_def is_digit_def digit_chars_def digit_value_def
                  digits_value_def nat_to_string.simps)
  have p_undef: "parseInt np JUndefined = None"
    by (simp add: parseInt_def isWhiteSpace_def is_digit_def digit_chars_def)
  have ten: "getLastRequests np (JNum (Fin 10)) st =
      rev (drop (length (requestLog st) - 10) (requestLog st))"
    by (simp add: getLastRequests_def effective_limit_def Let_def p_10)
  have one: "getLastRequests np (JNum (Fin 1)) st =
      rev (drop (length (requestLog st) - 1) (requestLog st))"
    by (simp add: getLastRequests_def effective_limit_def Let_def p_1)
  have fallback: "getLastRequests np u st = getLastRequests np (JNum (Fin 10)) st"
    if "parseInt np u = None \<or> parseInt np u = Some 0" for u
  proof (cases "u = JUndefined")
    case True
    then show ?thesis by (simp add: getLastRequests_def Let_def)
  next
    case False
    with that show ?thesis
      unfolding ten by (auto simp: getLastRequests_def effective_limit_def Let_def)
  qed
  have clamp: "getLastRequests np u st = getLastRequests np (JNum (Fin 1)) st"
    if "parseInt np u = Some n" "n < 0" for u n
  proof -
    from that(1) have "u \<noteq> JUndefined"
      using p_undef by auto
    with that show ?thesis
      unfolding one by (simp add: getLastRequests_def effective_limit_def Let_def)
  qed
  have abc: "getLastRequests np (JStr ''abc'') st = getLastRequests np (JNum (Fin 10)) st"
    using fallback [of "JStr ''abc''"] p_abc by simp
  have m5: "getLastRequests np (JNum (Fin (- 5))) st = getLastRequests np (JNum (Fin 1)) st"
    using clamp [OF p_m5] by simp
  show ?thesis
    using fallback [of v] clamp [of v] parseInt_no_digit [of s np] p_abc p_m5 abc m5 ten one
    by blast
qed

theorem invalid_limit_fallbacks_witness:
  "getLastRequests (\<lambda>n. ''1e+21'') (JStr ''abc'')
     \<lparr>totalRequests = 12, successfulResponses = 12, failedResponses = 0, customCounters = [],
      requestLog = map (\<lambda>i. JNum (Fin i)) [1, 2, 3, 4, 5, 6, 7, 8, 9, 10, 11, 12]\<rparr> =
   map (\<lambda>i. JNum (Fin i)) [12, 11, 10, 9, 8, 7, 6, 5, 4, 3] \<and>
   getLastRequests (\<lambda>n. ''1e+21'') (JStr ''-7 entries'')
     \<lparr>totalRequests = 12, successfulResponses = 12, failedResponses = 0, customCounters = [],
      requestLog = map (\<lambda>i. JNum (Fin i)) [1, 2, 3, 4, 5, 6, 7, 8, 9, 10, 11, 12]\<rparr> =
   map (\<lambda>i. JNum (Fin i)) [12]"
proof -
  let ?np = "\<lambda>n::int. ''1e+21''"
  let ?st = "\<lparr>totalRequests = 12, successfulResponses = 12, failedResponses = 0,
              customCounters = [],
              requestLog = map (\<lambda>i. JNum (Fin i)) [1, 2, 3, 4, 5, 6, 7, 8, 9, 10, 11, 12]\<rparr>"
  have no_digit: "\<forall>c \<in> set ''abc''. \<not> is_digit c"
    by (simp add: is_digit_def digit_chars_def)
  have neg: "parseInt ?np (JStr ''-7 entries'') = Some (- 7) \<and> (- 7 :: int) < 0"
    by (simp add: parseInt_def isWhiteSpace_def is_digit_def digit_chars_def digit_value_def
                  digits_value_def)
  have a: "getLastRequests ?np (JStr ''abc'') ?st =
      rev (drop (length (requestLog ?st) - 10) (requestLog ?st))"
    using no_digit invalid_limit_fallbacks [of ?np "JStr ''abc''" ?st "''abc''"] by simp
  have b: "getLastRequests ?np (JStr ''-7 entries'') ?st =
      rev (drop (length (requestLog ?st) - 1) (requestLog ?st))"
    using neg invalid_limit_fallbacks [of ?np "JStr ''-7 entries''" ?st "''abc''"] by simp
  show ?thesis
    unfolding a b by simp
qed

text \<open>
  C5 as stated fails for \<open>-5\<close>: with two entries in the log, \<open>getLastRequests(-5)\<close>
  returns the most recent one only, \<open>getLastRequests(10)\<close> returns both.
\<close>

theorem negative_limit_counterexample:
  "getLastRequests (\<lambda>n. ''1e+21'') (JNum (Fin (- 5)))
     \<lparr>totalRequests = 2, successfulResponses = 2, failedResponses = 0, customCounters = [],
      requestLog = [make_log_entry \<lparr>req_method = ''GET'', originalUrl = ''/a''\<rparr> 200 3000000 ''2025-07-05T18:30:00.000Z'',
                    make_log_entry \<lparr>req_method = ''GET'', originalUrl = ''/b''\<rparr> 200 3000000 ''2025-07-05T18:30:01.000Z'']\<rparr>
     = [make_log_entry \<lparr>req_method = ''GET'', originalUrl = ''/b''\<rparr> 200 3000000 ''2025-07-05T18:30:01.000Z''] \<and>
   getLastRequests (\<lambda>n. ''1e+21'') (JNum (Fin 10))
     \<lparr>totalRequests = 2, successfulResponses = 2, failedResponses = 0, customCounters = [],
      requestLog = [make_log_entry \<lparr>req_method = ''GET'', originalUrl = ''/a''\<rparr> 200 3000000 ''2025-07-05T18:30:00.000Z'',
                    make_log_entry \<lparr>req_method = ''GET'', originalUrl = ''/b''\<rparr> 200 3000000 ''2025-07-05T18:30:01.000Z'']\<rparr>
     = [make_log_entry \<lparr>req_method = ''GET'', originalUrl = ''/b''\<rparr> 200 3000000 ''2025-07-05T18:30:01.000Z'',
        make_log_entry \<lparr>req_method = ''GET'', originalUrl = ''/a''\<rparr> 200 3000000 ''2025-07-05T18:30:00.000Z'']"
  by (simp add: getLastRequests_def effective_limit_def parseInt_def isWhiteSpace_def
                is_digit_def digit_chars_def digit_value_def digits_value_def
                nat_to_string.simps Let_def)

section \<open>Properties of validarInteraccion\<close>

lemma invalid_field_iff:
  "invalid_field v = (\<forall>s. v = JStr s \<longrightarrow> trim s = [])"
  by (cases v) (auto simp: invalid_field_def trim_def)

text \<open>
  C6 (as amended). The two required fields are named \<open>usuarioId\<close> and \<open>mensajeUsuario\<close>.
  A body with \<open>usuarioId\<close> "u1" and an empty \<open>mensajeUsuario\<close> is rejected with status 400
  and \<open>details.parameter\<close> equal to "mensajeUsuario". A body passes to the next handler
  exactly when both fields are strings that are not empty after trimming.
\<close>

theorem validarInteraccion_fields:
  "validarInteraccion now (JObj [(''usuarioId'', JStr ''u1''), (''mensajeUsuario'', JStr '''')]) =
     Inr (Reject 400 (validation_body ''mensajeUsuario'' now)) \<and>
   get_prop (get_prop (validation_body ''mensajeUsuario'' now) ''details'') ''parameter'' =
     JStr ''mensajeUsuario'' \<and>
   (get_prop (JObj kvs) ''usuarioId'' = JStr u \<and> trim u \<noteq> [] \<and>
    get_prop (JObj kvs) ''mensajeUsuario'' = JStr m \<and> trim m \<noteq> []
      \<longrightarrow> validarInteraccion now (JObj kvs) = Inr Proceed) \<and>
   (validarInteraccion now (JObj kvs) = Inr Proceed
      \<longrightarrow> (\<exists>u m. get_prop (JObj kvs) ''usuarioId'' = JStr u \<and> trim u \<noteq> [] \<and>
                 get_prop (JObj kvs) ''mensajeUsuario'' = JStr m \<and> trim m \<noteq> []))"
proof -
  have a: "validarInteraccion now (JObj [(''usuarioId'', JStr ''u1''), (''mensajeUsuario'', JStr '''')]) =
     Inr (Reject 400 (validation_body ''mensajeUsuario'' now))"
    by (simp add: validarInteraccion_def invalid_field_def trim_def isWhiteSpace_def)
  have b: "get_prop (get_prop (validation_body ''mensajeUsuario'' now) ''details'') ''parameter'' =
     JStr ''mensajeUsuario''"
    by (simp add: validation_body_def)
  have c: "validarInteraccion now (JObj kvs) = Inr Proceed"
    if "get_prop (JObj kvs) ''usuarioId'' = JStr u" "trim u \<noteq> []"
       "get_prop (JObj kvs) ''mensajeUsuario'' = JStr m" "trim m \<noteq> []"
    using that unfolding validarInteraccion_def Let_def invalid_field_iff by simp
  have d: "\<exists>u m. get_prop (JObj kvs) ''usuarioId'' = JStr u \<and> trim u \<noteq> [] \<and>
                 get_prop (JObj kvs) ''mensajeUsuario'' = JStr m \<and> trim m \<noteq> []"
    if "validarInteraccion now (JObj kvs) = Inr Proceed"
    using that unfolding validarInteraccion_def Let_def invalid_field_iff
    by (auto split: if_splits)
  show ?thesis using a b c d by blast
qed

theorem validarInteraccion_fields_witness:
  "validarInteraccion ''2025-07-05T18:30:00.000Z''
     (JObj [(''usuarioId'', JStr ''u1''), (''mensajeUsuario'', JStr ''hi'')]) = Inr Proceed"
proof -
  have u: "trim ''u1'' \<noteq> []" by (simp add: trim_def isWhiteSpace_def)
  have m: "trim ''hi'' \<noteq> []" by (simp add: trim_def isWhiteSpace_def)
  show ?thesis
    using u m validarInteraccion_fields [of "''2025-07-05T18:30:00.000Z''"
        "[(''usuarioId'', JStr ''u1''), (''mensajeUsuario'', JStr ''hi'')]" "''u1''" "''hi''"]
    by simp
qed

text \<open>
  C6 as stated fails on the field names: a body \<open>{userId: "u1", userMessage: ""}\<close> is
  rejected for its missing \<open>usuarioId\<close>, so \<open>details.parameter\<close> is "usuarioId" and not
  "userMessage"; and \<open>{userId: "u1", userMessage: "hi"}\<close> is rejected as well.
\<close>

theorem english_field_names_counterexample:
  "validarInteraccion ''2025-07-05T18:30:00.000Z''
     (JObj [(''userId'', JStr ''u1''), (''userMessage'', JStr '''')]) =
     Inr (Reject 400 (validation_body ''usuarioId'' ''2025-07-05T18:30:00.000Z'')) \<and>
   get_prop (get_prop (validation_body ''usuarioId'' ''2025-07-05T18:30:00.000Z'') ''details'')
       ''parameter'' = JStr ''usuarioId'' \<and>
   JStr ''usuarioId'' \<noteq> JStr ''userMessage'' \<and>
   validarInteraccion ''2025-07-05T18:30:00.000Z''
     (JObj [(''userId'', JStr ''u1''), (''userMessage'', JStr ''hi'')]) =
     Inr (Reject 400 (validation_body ''usuarioId'' ''2025-07-05T18:30:00.000Z''))"
  by (simp add: validarInteraccion_def invalid_field_def validation_body_def)

section \<open>Properties of Errores.Custom and AppError.toJSON\<close>

text \<open>
  \<open>Errores.Custom("x", 999)\<close> returns an error with code 500 and warns on the console,
  and every code other than \<open>NaN\<close> ends up in \<open>[100,600)\<close>.
\<close>

lemma Custom_999:
  "Custom (JStr ''x'') (JNum (Fin 999)) JUndefined JUndefined now =
     Inr (\<lparr>name = ''AppError'', message = ''x'', code = JNum (Fin 500), details = JObj [],
           timestamp = now\<rparr>, [Console_warn_code (JNum (Fin 999))])"
  by (simp add: Custom_def trim_def isWhiteSpace_def code_rejected_def new_AppError_def)

lemma code_rejected_iff:
  "code_rejected c = (c \<noteq> JNum NaN \<and> \<not> code_in_range c)"
proof (cases c)
  case (JNum n)
  then show ?thesis by (cases n) (auto simp: code_rejected_def code_in_range_def)
qed (simp_all add: code_rejected_def code_in_range_def)

lemma Custom_code_in_range:
  assumes "Custom msg c d l now = Inr (e, out)" and "c \<noteq> JNum NaN"
  shows "code_in_range (code e)"
  using assms
  by (auto simp: Custom_def Let_def new_AppError_def code_rejected_iff code_in_range_def
           split: js_value.splits if_splits)

text \<open>
  C7. The claim that every error returned by \<open>Custom\<close> has its code in \<open>[100,600)\<close>
  fails at the code \<open>NaN\<close>: it is of type number, and both \<open>NaN < 100\<close> and
  \<open>NaN >= 600\<close> are false, so the check of line 406 lets it through. The error comes
  back with code \<open>NaN\<close> and nothing is written to the console.
\<close>

theorem Custom_NaN_code_not_sanitized:
  "Custom (JStr ''x'') (JNum NaN) JUndefined JUndefined ''2025-07-05T18:30:00.000Z'' =
     Inr (\<lparr>name = ''AppError'', message = ''x'', code = JNum NaN, details = JObj [],
           timestamp = ''2025-07-05T18:30:00.000Z''\<rparr>, []) \<and>
   \<not> code_in_range (JNum NaN)"
  by (simp add: Custom_def trim_def isWhiteSpace_def code_rejected_def new_AppError_def
                code_in_range_def)






end
